theory Spec2Isabelle
  imports Main "HOL-Library.AList"
begin

section \<open>JavaScript values, errors and the world the services run in\<close>

text \<open>
  The message-broker layer of the repository is TypeScript on top of amqplib. Every
  payload is a JavaScript value built by \<^verbatim>\<open>JSON.parse\<close> or by an object literal; an
  object is an association list in insertion order. \<open>JUndefined\<close> is the value of a
  missing property. Numbers are integers: amounts, timestamps and counters are all the
  services compute with.
\<close>

datatype json =
    JUndefined
  | JNull
  | JBool bool
  | JNum int
  | JStr string
  | JArr "json list"
  | JObj "(string \<times> json) list"

datatype err_kind = PlainError | TypeError | SyntaxError | NotFoundException | IllegalOperationError | ConnectError

record error =
  kind :: err_kind
  code :: "string option"
  message :: string

definition mk_error :: "err_kind \<Rightarrow> string \<Rightarrow> error" where
  "mk_error k m = \<lparr>kind = k, code = None, message = m\<rparr>"

text \<open>
  \<^verbatim>\<open>v.k\<close>: reading a property of \<^verbatim>\<open>null\<close> or \<^verbatim>\<open>undefined\<close> throws a TypeError, a
  missing property reads as \<^verbatim>\<open>undefined\<close>. Properties inherited from a prototype
  (\<^verbatim>\<open>length\<close> of a string or an array) are not among the keys the services read.
\<close>

definition null_deref :: "json \<Rightarrow> string \<Rightarrow> error" where
  "null_deref v k = mk_error TypeError
     (''Cannot read properties of '' @ (if v = JNull then ''null'' else ''undefined'')
        @ '' (reading '' @ [CHR 0x27] @ k @ [CHR 0x27] @ '')'')"

fun get_prop :: "json \<Rightarrow> string \<Rightarrow> error + json" where
  "get_prop JUndefined k = Inl (null_deref JUndefined k)"
| "get_prop JNull k = Inl (null_deref JNull k)"
| "get_prop (JObj kvs) k = Inr (case map_of kvs k of None \<Rightarrow> JUndefined | Some v \<Rightarrow> v)"
| "get_prop v k = Inr JUndefined"

text \<open>\<^verbatim>\<open>v?.k\<close>: optional chaining reads \<^verbatim>\<open>undefined\<close> where \<^verbatim>\<open>v.k\<close> would throw.\<close>

definition get_prop_opt :: "json \<Rightarrow> string \<Rightarrow> json" where
  "get_prop_opt v k = (case get_prop v k of Inl e \<Rightarrow> JUndefined | Inr x \<Rightarrow> x)"

text \<open>Truthiness: \<^verbatim>\<open>undefined\<close>, \<^verbatim>\<open>null\<close>, \<^verbatim>\<open>false\<close>, \<^verbatim>\<open>0\<close> and \<^verbatim>\<open>""\<close> are falsy.\<close>

fun truthy :: "json \<Rightarrow> bool" where
  "truthy JUndefined = False"
| "truthy JNull = False"
| "truthy (JBool b) = b"
| "truthy (JNum n) = (n \<noteq> 0)"
| "truthy (JStr s) = (s \<noteq> [])"
| "truthy v = True"

text \<open>Decimal rendering of a number in a template literal.\<close>

function show_nat :: "nat \<Rightarrow> string" where
  "show_nat n = (if n < 10 then [char_of (48 + n)] else show_nat (n div 10) @ [char_of (48 + n mod 10)])"
  by pat_completeness auto
termination
  by (relation "measure (\<lambda>n. n)") auto

declare show_nat.simps [simp del]

definition show_int :: "int \<Rightarrow> string" where
  "show_int i = (if i < 0 then CHR ''-'' # show_nat (nat (- i)) else show_nat (nat i))"

text \<open>
  \<^verbatim>\<open>`${v}`\<close>: the string conversion of a value inside a template literal. An array joins
  its elements with commas, where \<^verbatim>\<open>null\<close> and \<^verbatim>\<open>undefined\<close> elements are empty. A number
  of absolute value up to \<open>2 ^ 53\<close> prints as its decimal digits. Beyond that the runtime
  prints the shortest digits that identify the double, in exponent form from \<^verbatim>\<open>1e21\<close> on:
  that text is the parameter \<open>big\<close>.
\<close>

fun join_with :: "string \<Rightarrow> string list \<Rightarrow> string" where
  "join_with sep [] = []"
| "join_with sep [x] = x"
| "join_with sep (x # y # ys) = x @ sep @ join_with sep (y # ys)"

fun to_string :: "(int \<Rightarrow> string) \<Rightarrow> json \<Rightarrow> string" where
  "to_string big JUndefined = ''undefined''"
| "to_string big JNull = ''null''"
| "to_string big (JBool b) = (if b then ''true'' else ''false'')"
| "to_string big (JNum n) = (if \<bar>n\<bar> \<le> 2 ^ 53 then show_int n else big n)"
| "to_string big (JStr s) = s"
| "to_string big (JArr xs) =
     join_with '','' (map (\<lambda>x. if x = JNull \<or> x = JUndefined then [] else to_string big x) xs)"
| "to_string big (JObj kvs) = ''[object Object]''"

text \<open>\<^verbatim>\<open>s.includes(sub)\<close>.\<close>

fun includes_str :: "string \<Rightarrow> string \<Rightarrow> bool" where
  "includes_str [] sub = (sub = [])"
| "includes_str (c # cs) sub = (take (length sub) (c # cs) = sub \<or> includes_str cs sub)"

section \<open>The world: broker link, record store, clock and oracles\<close>

text \<open>
  Modelled from the spec: the Payment entity and its PaymentStatus enum are declared in a
  file that is not among the sources. The record has the fields that the services read
  and write, and the enum has the five states of the payment status flow.
\<close>

datatype PaymentStatus = PENDING | PROCESSING | COMPLETED | FAILED | REFUNDED

record payment =
  id' :: string
  userId :: string
  orderId :: string
  amount :: int
  currency :: string
  status :: PaymentStatus
  stripePaymentId :: "string option"
  failureReason :: "string option"
  processedAt :: "nat option"

text \<open>A delivery handed to a consumer callback.\<close>

record delivery =
  deliveryTag :: nat
  content :: string
  replyTo :: "string option"
  correlationId :: "string option"

text \<open>
  What reaches the broker, in order. Every operation names first the channel (or, for
  \<open>Connected\<close>, the connection) it was issued on:
  \<open>AssertQueue c queue durable ttl\<close>, \<open>AssertExchange c exchange type durable\<close>,
  \<open>BindQueue c queue exchange pattern\<close>, \<open>Prefetch c count\<close>, \<open>Consume c queue\<close>,
  \<open>SendToQueue c queue body persistent correlationId\<close>,
  \<open>Publish c exchange routingKey body persistent\<close>, \<open>Ack c deliveryTag\<close> and
  \<open>Nack c deliveryTag allUpTo requeue\<close>. A message body is recorded as the value handed to
  \<^verbatim>\<open>JSON.stringify\<close>. \<open>Delay ms\<close> is a wait of ExpertConsumer and \<open>StripeDelay ms\<close> one of
  StripeService.
\<close>

datatype event =
    Connected nat
  | ChannelClosed nat
  | AssertQueue nat string bool "nat option"
  | AssertExchange nat string string bool
  | BindQueue nat string string string
  | Prefetch nat nat
  | Consume nat string
  | SendToQueue nat string json bool "string option"
  | Publish nat string string json bool
  | Ack nat nat
  | Nack nat nat bool bool
  | Delay nat
  | StripeDelay nat

record world =
  channel :: "nat option"
  connection :: "nat option"
  closed_chans :: "nat list"
  fresh :: nat
  broker_up :: bool
  buffer_full :: bool
  queues :: "string \<Rightarrow> (bool \<times> nat option) option"
  number_text :: "int \<Rightarrow> string"
  gt_coerced :: "json \<Rightarrow> int \<Rightarrow> bool"
  store :: "json \<Rightarrow> payment option"
  stripe :: "nat \<Rightarrow> bool"
  stripe_calls :: nat
  now :: nat
  trace :: "event list"
  console :: "string list"

text \<open>
  \<open>channel\<close> and \<open>connection\<close> are the two private fields of RabbitMQService
  (\<open>None\<close> is \<^verbatim>\<open>null\<close>); \<open>closed_chans\<close> are the channels the broker has closed;
  \<open>broker_up\<close> says whether \<^verbatim>\<open>amqp.connect\<close> succeeds; \<open>buffer_full\<close> is what makes
  \<^verbatim>\<open>channel.sendToQueue\<close> return \<^verbatim>\<open>false\<close>; \<open>queues\<close> are the queues that exist on the
  broker, each with the durability and the \<^verbatim>\<open>x-message-ttl\<close> argument it was declared with;
  \<open>number_text\<close> is the text the runtime prints for a number beyond \<open>2 ^ 53\<close> and
  \<open>gt_coerced v k\<close> the outcome of \<^verbatim>\<open>v > k\<close> for a string, an array or an object \<open>v\<close>, which
  the runtime first converts to a number; \<open>store\<close> is the payment repository, read by
  the value of the id column; \<open>stripe n\<close> is the outcome of \<^verbatim>\<open>Math.random() > 0.1\<close> in the
  \<open>n\<close>-th call of \<^verbatim>\<open>createPaymentIntent\<close>; \<open>now\<close> is the clock in milliseconds; \<open>console\<close>
  holds the lines logged, without their emoji and without the objects printed after them.
\<close>

type_synonym 'a io = "world \<Rightarrow> (error + 'a) \<times> world"

definition io_return :: "'a \<Rightarrow> 'a io" where
  "io_return x w = (Inr x, w)"

definition io_throw :: "error \<Rightarrow> 'a io" where
  "io_throw e w = (Inl e, w)"

definition io_bind :: "'a io \<Rightarrow> ('a \<Rightarrow> 'b io) \<Rightarrow> 'b io" where
  "io_bind m f w = (case m w of (Inl e, w') \<Rightarrow> (Inl e, w') | (Inr x, w') \<Rightarrow> f x w')"

definition io_catch :: "'a io \<Rightarrow> (error \<Rightarrow> 'a io) \<Rightarrow> 'a io" where
  "io_catch m h w = (case m w of (Inl e, w') \<Rightarrow> h e w' | (Inr x, w') \<Rightarrow> (Inr x, w'))"

definition io_lift :: "error + 'a \<Rightarrow> 'a io" where
  "io_lift r w = (r, w)"

definition log :: "string \<Rightarrow> unit io" where
  "log s w = (Inr (), w\<lparr>console := console w @ [s]\<rparr>)"

definition emit :: "event \<Rightarrow> world \<Rightarrow> world" where
  "emit ev w = w\<lparr>trace := trace w @ [ev]\<rparr>"

text \<open>
  An operation on channel \<open>c\<close>: amqplib throws IllegalOperationError \<^verbatim>\<open>Channel closed\<close> on
  a closed channel, and otherwise the operation is issued to the broker and recorded in the
  trace.
\<close>

definition chan_open :: "world \<Rightarrow> nat \<Rightarrow> bool" where
  "chan_open w c = (c \<notin> set (closed_chans w))"

definition chan_op :: "nat \<Rightarrow> event \<Rightarrow> unit io" where
  "chan_op c ev w =
     (if chan_open w c then (Inr (), emit ev w)
      else (Inl (mk_error IllegalOperationError ''Channel closed''), w))"

text \<open>
  Modelled from the spec: the broker's answer to a queue declaration is not code of the
  repository. Queues are declared idempotently: declaring a queue that does not exist
  creates it, declaring an existing queue with the identical specification (durability
  and, for the dead-letter queue, time-to-live) is a no-op, and declaring it with a
  mismatched specification is an error. That error is the broker's 406: it closes the
  channel the declaration came on, amqplib rejects the call, and the \<^verbatim>\<open>error\<close> and
  \<^verbatim>\<open>close\<close> handlers of the service log it; the text of the error is abbreviated. The
  exchange \<^verbatim>\<open>payment_events\<close> is declared with the same arguments everywhere, so its
  declarations stay plain operations.
\<close>

definition precondition_failed :: error where
  "precondition_failed = \<lparr>kind = PlainError, code = Some ''406'',
     message = ''Operation failed: QueueDeclare; 406 (PRECONDITION-FAILED)''\<rparr>"

definition assertQueue :: "nat \<Rightarrow> string \<Rightarrow> bool \<Rightarrow> nat option \<Rightarrow> unit io" where
  "assertQueue c queue durable ttl w =
     (if \<not> chan_open w c then (Inl (mk_error IllegalOperationError ''Channel closed''), w)
      else
        (case queues w queue of
           None \<Rightarrow>
             (Inr (), emit (AssertQueue c queue durable ttl)
                        (w\<lparr>queues := (queues w)(queue := Some (durable, ttl))\<rparr>))
         | Some spec \<Rightarrow>
             if spec = (durable, ttl) then (Inr (), emit (AssertQueue c queue durable ttl) w)
             else
               (Inl precondition_failed,
                emit (ChannelClosed c) (emit (AssertQueue c queue durable ttl)
                  (w\<lparr>closed_chans := c # closed_chans w,
                     console := console w @ [''RabbitMQ channel error: '' @ message precondition_failed,
                                             ''RabbitMQ channel closed'']\<rparr>)))))"

text \<open>\<^verbatim>\<open>`${v}`\<close> where it is evaluated: the text of a value in the running program.\<close>

definition str_of :: "json \<Rightarrow> string io" where
  "str_of v w = (Inr (to_string (number_text w) v), w)"

text \<open>\<^verbatim>\<open>this.channel.op(...)\<close>: the field is dereferenced first.\<close>

definition this_channel :: "string \<Rightarrow> nat io" where
  "this_channel opname w =
     (case channel w of
        None \<Rightarrow> (Inl (null_deref JNull opname), w)
      | Some c \<Rightarrow> (Inr c, w))"

section \<open>RabbitMQService: the connection manager\<close>

definition read_prop :: "json \<Rightarrow> string \<Rightarrow> json io" where
  "read_prop v k = io_lift (get_prop v k)"

text \<open>
  \<^verbatim>\<open>channel.close()\<close> rejects on a channel that is closed already. The channels of the
  service carry the \<^verbatim>\<open>close\<close> handler that \<open>connect\<close> registers, which logs a warning.
\<close>

definition channel_close :: "nat \<Rightarrow> unit io" where
  "channel_close c w =
     (if chan_open w c
      then log ''RabbitMQ channel closed''
             (emit (ChannelClosed c) (w\<lparr>closed_chans := c # closed_chans w\<rparr>))
      else (Inl (mk_error IllegalOperationError ''Channel closed''), w))"

text \<open>
  \<^verbatim>\<open>amqp.connect(url)\<close> followed by \<^verbatim>\<open>createChannel()\<close>: a new connection and its channel
  share the number \<open>fresh w\<close>.
\<close>

definition amqp_connect :: "nat io" where
  "amqp_connect w =
     (if broker_up w
      then (Inr (fresh w), emit (Connected (fresh w)) (w\<lparr>fresh := Suc (fresh w)\<rparr>))
      else (Inl \<lparr>kind = ConnectError, code = Some ''ECONNREFUSED'',
                  message = ''connect ECONNREFUSED''\<rparr>, w))"

definition connect :: "unit io" where
  "connect =
     io_bind
       (\<lambda>w. case channel w of
               Some c \<Rightarrow> io_catch (channel_close c) (\<lambda>e. io_return ()) w
             | None \<Rightarrow> (Inr (), w))
       (\<lambda>_. io_bind amqp_connect
          (\<lambda>k. io_bind (\<lambda>w. (Inr (), w\<lparr>channel := Some k, connection := Some k\<rparr>))
             (\<lambda>_. log ''Connected to RabbitMQ'')))"

text \<open>
  The handler that \<open>connect\<close> registers for the \<^verbatim>\<open>close\<close> event of the connection: when
  the broker drops connection \<open>k\<close>, its channel is closed with it and both fields of the
  service are cleared.
\<close>

definition connection_closed :: "nat \<Rightarrow> world \<Rightarrow> world" where
  "connection_closed k w =
     (w\<lparr>closed_chans := k # closed_chans w, channel := None, connection := None,
        console := console w @ [''RabbitMQ channel closed'', ''RabbitMQ connection closed'']\<rparr>)"

definition ensureChannel :: "unit io" where
  "ensureChannel w =
     (if channel w \<noteq> None \<and> connection w \<noteq> None then (Inr (), w)
      else io_bind (log ''RabbitMQ channel not initialized, attempting to reconnect...'')
             (\<lambda>_. connect) w)"

definition isChannelError :: "error \<Rightarrow> bool" where
  "isChannelError e =
     (code e = Some ''ECONNRESET''
      \<or> includes_str (message e) ''closed''
      \<or> includes_str (message e) ''Channel closed''
      \<or> includes_str (message e) ''Connection closed'')"

text \<open>\<^verbatim>\<open>channel.sendToQueue\<close> returns \<^verbatim>\<open>false\<close> when the write buffer is full.\<close>

definition sendToQueue :: "nat \<Rightarrow> string \<Rightarrow> json \<Rightarrow> bool \<Rightarrow> string option \<Rightarrow> bool io" where
  "sendToQueue c queue body persistent corr =
     io_bind (chan_op c (SendToQueue c queue body persistent corr))
       (\<lambda>_ w. (Inr (\<not> buffer_full w), w))"

definition sendToQueueWithRetry :: "string \<Rightarrow> json \<Rightarrow> bool \<Rightarrow> string \<Rightarrow> bool io" where
  "sendToQueueWithRetry queue messageBuffer durable logPrefix =
     io_bind ensureChannel
       (\<lambda>_. io_bind (this_channel ''assertQueue'')
          (\<lambda>c. io_bind (assertQueue c queue durable None)
             (\<lambda>_. io_bind (this_channel ''sendToQueue'')
                (\<lambda>c. io_bind (sendToQueue c queue messageBuffer False None)
                   (\<lambda>sent. io_bind (if sent \<and> logPrefix \<noteq> [] then log logPrefix else io_return ())
                      (\<lambda>_. io_return sent))))))"

definition createPaymentMessage :: "json \<Rightarrow> json io" where
  "createPaymentMessage payment =
     io_bind (read_prop payment ''id'') (\<lambda>a.
     io_bind (read_prop payment ''userId'') (\<lambda>b.
     io_bind (read_prop payment ''orderId'') (\<lambda>c.
     io_bind (read_prop payment ''amount'') (\<lambda>d.
     io_bind (read_prop payment ''currency'') (\<lambda>e.
     io_bind (read_prop payment ''paymentMethod'') (\<lambda>f.
     io_bind (read_prop payment ''last4digits'') (\<lambda>g.
     io_return (JObj [(''id'', a), (''userId'', b), (''orderId'', c), (''amount'', d),
                      (''currency'', e), (''paymentMethod'', f), (''last4digits'', g)]))))))))"

definition sendToPaymentQueue :: "json \<Rightarrow> unit io" where
  "sendToPaymentQueue payment =
     (if \<not> truthy (get_prop_opt payment ''id'')
      then io_throw (mk_error PlainError ''Invalid payment data provided'')
      else
        (let queue = ''payments'' in
         io_bind (str_of (get_prop_opt payment ''id'')) (\<lambda>pid.
         io_catch
           (io_bind (createPaymentMessage payment) (\<lambda>messageBuffer.
            io_bind (sendToQueueWithRetry queue messageBuffer False
                       (''Sent payment '' @ pid @ '' to '' @ queue @ '' queue'')) (\<lambda>sent.
            if \<not> sent
            then log (''Message for payment '' @ pid @ '' was not sent (queue may be full).'')
            else io_return ())))
           (\<lambda>error.
              if isChannelError error
              then
                io_bind (log ''RabbitMQ channel error detected, attempting to reconnect...'') (\<lambda>_.
                io_bind connect (\<lambda>_.
                io_bind (createPaymentMessage payment) (\<lambda>messageBuffer.
                io_bind (sendToQueueWithRetry queue messageBuffer False
                           (''Sent payment '' @ pid @ '' to '' @ queue
                              @ '' queue (after reconnection)'')) (\<lambda>sent.
                if \<not> sent
                then log (''Message for payment '' @ pid
                            @ '' was not sent after reconnection (queue may be full).'')
                else io_return ()))))
              else
                io_bind (log (''Failed to send payment '' @ pid @ '' to RabbitMQ queue: ''
                                @ message error)) (\<lambda>_.
                io_throw (mk_error PlainError
                   (''Unable to queue payment '' @ pid @ '' for processing: ''
                      @ message error)))))))"

definition sendToWorkQueue :: "string \<Rightarrow> json \<Rightarrow> unit io" where
  "sendToWorkQueue queueName task =
     io_bind (this_channel ''assertQueue'') (\<lambda>c.
     io_bind (assertQueue c queueName True None) (\<lambda>_.
     io_bind (this_channel ''sendToQueue'') (\<lambda>c.
     io_bind (sendToQueue c queueName task True None) (\<lambda>_.
     log (''Sent task to durable queue: '' @ queueName)))))"

definition sendToTopicExchange :: "string \<Rightarrow> string \<Rightarrow> json \<Rightarrow> unit io" where
  "sendToTopicExchange exchange routingKey msg =
     io_bind (this_channel ''assertExchange'') (\<lambda>c.
     io_bind (chan_op c (AssertExchange c exchange ''topic'' True)) (\<lambda>_.
     io_bind (this_channel ''publish'') (\<lambda>c.
     io_bind (chan_op c (Publish c exchange routingKey msg True)) (\<lambda>_.
     log (''Sent to topic '' @ routingKey @ '' via exchange '' @ exchange)))))"

text \<open>
  \<^verbatim>\<open>{...message}\<close>: the own enumerable properties of the value; an array or a string spreads
  into its indices, any other primitive into nothing.
\<close>

fun spread :: "json \<Rightarrow> (string \<times> json) list" where
  "spread (JObj kvs) = kvs"
| "spread (JArr xs) = zip (map show_nat [0..<length xs]) xs"
| "spread (JStr s) = zip (map show_nat [0..<length s]) (map (\<lambda>c. JStr [c]) s)"
| "spread v = []"

text \<open>\<^verbatim>\<open>failedAt: new Date()\<close> is recorded as the clock reading in milliseconds.\<close>

definition sendToDLQ :: "string \<Rightarrow> json \<Rightarrow> string \<Rightarrow> unit io" where
  "sendToDLQ queueName msg reason =
     (let dlqName = queueName @ ''.dlq'' in
      io_bind (this_channel ''assertQueue'') (\<lambda>c.
      io_bind (assertQueue c dlqName True None) (\<lambda>_.
      io_bind (\<lambda>w. (Inr (JObj (AList.update ''failureReason'' (JStr reason)
                              (AList.update ''failedAt'' (JNum (int (now w))) (spread msg)))), w))
        (\<lambda>enhancedMessage.
      io_bind (this_channel ''sendToQueue'') (\<lambda>c.
      io_bind (sendToQueue c dlqName enhancedMessage False None) (\<lambda>_.
      log (''Sent failed message to DLQ: '' @ dlqName)))))))"

definition getChannel :: "nat io" where
  "getChannel w =
     (case channel w of
        None \<Rightarrow> (Inl (mk_error PlainError
            ''RabbitMQ channel is not initialized yet. Make sure RabbitMQService has finished connecting.''), w)
      | Some c \<Rightarrow> (Inr c, w))"

section \<open>StripeService and PaymentService\<close>

definition sleep :: "nat \<Rightarrow> world \<Rightarrow> world" where
  "sleep ms w = w\<lparr>now := now w + ms\<rparr>"

text \<open>
  \<^verbatim>\<open>createPaymentIntent\<close> waits a second, then succeeds or throws by the next outcome of
  the random source; of its result only the \<^verbatim>\<open>id\<close> is read by the caller.
\<close>

definition createPaymentIntent :: "int \<Rightarrow> string \<Rightarrow> string io" where
  "createPaymentIntent amt cur w =
     (let w1 = sleep 1000 (emit (StripeDelay 1000) w);
          success = stripe w1 (stripe_calls w1);
          w2 = w1\<lparr>stripe_calls := Suc (stripe_calls w1)\<rparr>
      in if success then (Inr (''pi_mock_'' @ show_nat (now w2)), w2)
         else (Inl (mk_error PlainError ''Payment failed: Insufficient funds''), w2))"




definition findOne :: "json \<Rightarrow> payment io" where
  "findOne i w =
     (case store w i of
        None \<Rightarrow> (Inl (mk_error NotFoundException
                         (''Payment with ID '' @ to_string (number_text w) i @ '' not found'')), w)
      | Some p \<Rightarrow> (Inr p, w))"

definition save :: "payment \<Rightarrow> world \<Rightarrow> world" where
  "save p w = w\<lparr>store := (store w)(JStr (id' p) := Some p)\<rparr>"

text \<open>
  The \<^verbatim>\<open>catch\<close> block of \<^verbatim>\<open>processPayment\<close>: the payment object, as far as the \<^verbatim>\<open>try\<close>
  block has changed it, is marked failed and saved, and the error is thrown again.
\<close>

definition processPayment_failed :: "payment \<Rightarrow> error \<Rightarrow> unit io" where
  "processPayment_failed p e =
     io_bind (log (''Payment '' @ id' p @ '' failed: '' @ message e)) (\<lambda>_ w.
       (Inl e, save (p\<lparr>status := FAILED, failureReason := Some (message e)\<rparr>) w))"

definition processPayment :: "payment \<Rightarrow> unit io" where
  "processPayment p w =
     (let p1 = p\<lparr>status := PROCESSING\<rparr>; w1 = save p1 w in
      case createPaymentIntent (amount p1) (currency p1) w1 of
        (Inl e, w2) \<Rightarrow> processPayment_failed p1 e w2
      | (Inr rid, w2) \<Rightarrow>
          (let p2 = p1\<lparr>status := COMPLETED, stripePaymentId := Some rid,
                        processedAt := Some (now w2)\<rparr>;
               w3 = save p2 w2
           in case sendToTopicExchange ''payment_events'' ''payment.complete''
                     (JObj [(''paymentId'', JStr (id' p2)), (''type'', JStr ''complete''),
                            (''amount'', JNum (amount p2)), (''userId'', JStr (userId p2))]) w3 of
                (Inl e, w4) \<Rightarrow> processPayment_failed p2 e w4
              | (Inr u, w4) \<Rightarrow> log (''Payment '' @ id' p2 @ '' processed successfully'') w4))"

section \<open>Consumers\<close>

text \<open>
  \<^verbatim>\<open>JSON.parse(msg.content.toString())\<close>: the parser of the runtime is a parameter \<open>parse\<close>
  of every consumer; \<open>None\<close> is its SyntaxError.
\<close>

definition JSON_parse :: "(string \<Rightarrow> json option) \<Rightarrow> string \<Rightarrow> json io" where
  "JSON_parse parse s =
     (case parse s of
        None \<Rightarrow> io_throw (mk_error SyntaxError ''Unexpected token in JSON'')
      | Some v \<Rightarrow> io_return v)"

definition ack :: "nat \<Rightarrow> delivery \<Rightarrow> unit io" where
  "ack c msg = chan_op c (Ack c (deliveryTag msg))"

definition nack :: "nat \<Rightarrow> delivery \<Rightarrow> bool \<Rightarrow> bool \<Rightarrow> unit io" where
  "nack c msg allUpTo requeue = chan_op c (Nack c (deliveryTag msg) allUpTo requeue)"

subsection \<open>BeginnerConsumer\<close>

text \<open>
  The callback that \<^verbatim>\<open>consumePayments\<close> registers on queue \<^verbatim>\<open>payments\<close>, on the channel
  \<open>c\<close> it took from \<open>getChannel\<close>; \<open>None\<close> is the \<^verbatim>\<open>null\<close> delivery of a cancelled
  consumer. \<open>consumePayments_work\<close> is the part of its \<^verbatim>\<open>try\<close> block before the
  acknowledgment.
\<close>

definition consumePayments_work :: "(string \<Rightarrow> json option) \<Rightarrow> delivery \<Rightarrow> unit io" where
  "consumePayments_work parse msg =
     io_bind (JSON_parse parse (content msg)) (\<lambda>message.
     io_bind (log ''[BEGINNER] Processing payment:'') (\<lambda>_.
     io_bind (read_prop message ''id'') (\<lambda>i.
     io_bind (findOne i) (\<lambda>payment.
     processPayment payment))))"

definition consumePayments_handler ::
    "(string \<Rightarrow> json option) \<Rightarrow> nat \<Rightarrow> delivery option \<Rightarrow> unit io" where
  "consumePayments_handler parse c m =
     (case m of
        None \<Rightarrow> io_return ()
      | Some msg \<Rightarrow>
          io_catch
            (io_bind (consumePayments_work parse msg) (\<lambda>_.
             io_bind (ack c msg) (\<lambda>_.
             log ''[BEGINNER] Payment processed successfully'')))
            (\<lambda>error.
             io_bind (log (''[BEGINNER] Error processing payment: '' @ message error)) (\<lambda>_.
             ack c msg)))"

subsection \<open>IntermediateConsumer\<close>





subsection \<open>ExpertConsumer\<close>

definition delay :: "nat \<Rightarrow> unit io" where
  "delay ms w = (Inr (), sleep ms (emit (Delay ms) w))"

definition maxRetries :: nat where
  "maxRetries = 3"

text \<open>The \<^verbatim>\<open>try\<close> block of \<^verbatim>\<open>processWithRetry\<close>: one attempt.\<close>

definition processWithRetry_attempt :: "json \<Rightarrow> payment io" where
  "processWithRetry_attempt request =
     io_bind (read_prop request ''paymentId'') (\<lambda>i.
     io_bind (findOne i) (\<lambda>payment.
     io_bind (processPayment payment) (\<lambda>_.
     io_return payment)))"

text \<open>
  The exponential backoff in its \<^verbatim>\<open>catch\<close> block: \<^verbatim>\<open>Math.pow(2, retries) * 1000\<close>
  milliseconds, then the log line.
\<close>

definition backoff :: "nat \<Rightarrow> unit io" where
  "backoff retries =
     io_bind (delay (2 ^ retries * 1000)) (\<lambda>_.
     log (''[EXPERT] Retry '' @ show_nat (retries + 1) @ ''/'' @ show_nat maxRetries
            @ '' after '' @ show_nat (2 ^ retries * 1000) @ ''ms''))"

function processWithRetry :: "json \<Rightarrow> nat \<Rightarrow> json io" where
  "processWithRetry request retries w =
     (case processWithRetry_attempt request w of
        (Inr payment, w1) \<Rightarrow>
          (Inr (JObj [(''success'', JBool True), (''paymentId'', JStr (id' payment)),
                      (''retries'', JNum (int retries))]), w1)
      | (Inl error, w1) \<Rightarrow>
          (if retries < maxRetries
           then
             (case backoff retries w1 of
                (Inl e, w2) \<Rightarrow> (Inl e, w2)
              | (Inr u, w2) \<Rightarrow> processWithRetry request (retries + 1) w2)
           else
             io_bind (sendToDLQ ''payment_processing'' request
                        (''Max retries exceeded: '' @ message error)) (\<lambda>_.
             io_return (JObj [(''success'', JBool False),
                              (''error'', JStr ''Max retries exceeded''),
                              (''sentToDLQ'', JBool True)])) w1))"
  by pat_completeness auto
termination
  by (relation "measure (\<lambda>(request, retries, w). maxRetries - retries)") auto

declare processWithRetry.simps [simp del]

text \<open>\<^verbatim>\<open>setupDeadLetterQueue\<close> declares the dead-letter queue with a time-to-live of one hour.\<close>

definition setupDeadLetterQueue :: "unit io" where
  "setupDeadLetterQueue =
     io_bind getChannel (\<lambda>c.
     io_bind (assertQueue c ''payment_processing.dlq'' True (Some 3600000)) (\<lambda>_.
     log ''[EXPERT] Dead Letter Queue set up: payment_processing.dlq''))"

text \<open>
  Modelled from the spec: the string values of the PaymentStatus enum, declared with the
  entity; they are the lower-case names of the states.
\<close>

definition status_json :: "PaymentStatus \<Rightarrow> json" where
  "status_json st =
     JStr (case st of PENDING \<Rightarrow> ''pending'' | PROCESSING \<Rightarrow> ''processing''
           | COMPLETED \<Rightarrow> ''completed'' | FAILED \<Rightarrow> ''failed'' | REFUNDED \<Rightarrow> ''refunded'')"

text \<open>
  \<^verbatim>\<open>msg.properties.replyTo\<close> as the first argument of \<^verbatim>\<open>sendToQueue\<close>: a delivery without
  the property publishes with the empty routing key.
\<close>

definition reply_queue :: "delivery \<Rightarrow> string" where
  "reply_queue msg = (case replyTo msg of None \<Rightarrow> [] | Some q \<Rightarrow> q)"

text \<open>The \<^verbatim>\<open>switch\<close> of the RPC server on \<^verbatim>\<open>request.method\<close>.\<close>

definition rpc_dispatch :: "json \<Rightarrow> json io" where
  "rpc_dispatch request =
     io_bind (read_prop request ''method'') (\<lambda>meth.
       if meth = JStr ''getPaymentStatus''
       then io_bind (read_prop request ''paymentId'') (\<lambda>i.
            io_bind (findOne i) (\<lambda>payment.
            io_return (JObj [(''paymentId'', JStr (id' payment)),
                             (''status'', status_json (status payment)),
                             (''amount'', JNum (amount payment))])))
       else if meth = JStr ''processPaymentWithRetry''
       then processWithRetry request 0
       else io_return (JObj [(''error'', JStr ''Unknown method'')]))"

text \<open>
  The callback of the RPC server on queue \<^verbatim>\<open>payment_rpc\<close>. \<open>rpc_request\<close> is the part of
  its \<^verbatim>\<open>try\<close> block that computes the response.
\<close>

definition rpc_request :: "(string \<Rightarrow> json option) \<Rightarrow> delivery \<Rightarrow> json io" where
  "rpc_request parse msg =
     io_bind (JSON_parse parse (content msg)) (\<lambda>request.
     io_bind (log ''[EXPERT] RPC Request:'') (\<lambda>_.
     rpc_dispatch request))"

definition setupRPCServer_handler ::
    "(string \<Rightarrow> json option) \<Rightarrow> nat \<Rightarrow> delivery option \<Rightarrow> unit io" where
  "setupRPCServer_handler parse c m =
     (case m of
        None \<Rightarrow> io_return ()
      | Some msg \<Rightarrow>
          io_catch
            (io_bind (rpc_request parse msg) (\<lambda>response.
             io_bind (sendToQueue c (reply_queue msg) response False (correlationId msg)) (\<lambda>_.
             io_bind (ack c msg) (\<lambda>_.
             log ''[EXPERT] RPC Response sent''))))
            (\<lambda>error.
             io_bind (log (''[EXPERT] RPC Error: '' @ message error)) (\<lambda>_.
             nack c msg False False)))"



subsection \<open>AdvancedConsumer: the bindings of the topic exchange\<close>

definition exchange :: string where
  "exchange = ''payment_events''"

definition routingPatterns_approve :: string where
  "routingPatterns_approve = ''payment.credit.approve''"

definition routingPatterns_refund :: string where
  "routingPatterns_refund = ''payment.refund''"

function waitForRabbitMQ_from :: "nat \<Rightarrow> unit io" where
  "waitForRabbitMQ_from i w =
     (if i < 10
      then (case getChannel w of
              (Inr c, w1) \<Rightarrow> (Inr (), w1)
            | (Inl e, w1) \<Rightarrow>
                waitForRabbitMQ_from (Suc i)
                  (sleep 500 (w1\<lparr>console := console w1 @ [''Waiting for RabbitMQ connection...'']\<rparr>)))
      else (Inl (mk_error PlainError ''Failed to connect to RabbitMQ after multiple attempts''), w))"
  by pat_completeness auto
termination
  by (relation "measure (\<lambda>(i, w). 10 - i)") auto

declare waitForRabbitMQ_from.simps [simp del]

definition waitForRabbitMQ :: "unit io" where
  "waitForRabbitMQ = waitForRabbitMQ_from 0"

text \<open>
  The four set-up methods up to the registration of their callback: each declares the
  exchange and its queue and binds the queue with its pattern.
\<close>

definition declare_and_bind :: "nat \<Rightarrow> string \<Rightarrow> string \<Rightarrow> unit io" where
  "declare_and_bind c queue pattern =
     io_bind (chan_op c (AssertExchange c exchange ''topic'' True)) (\<lambda>_.
     io_bind (assertQueue c queue True None) (\<lambda>_.
     chan_op c (BindQueue c queue exchange pattern)))"

definition consumeApprovedPayments :: "unit io" where
  "consumeApprovedPayments =
     io_bind getChannel (\<lambda>c.
     io_bind (declare_and_bind c ''approved_payments'' routingPatterns_approve) (\<lambda>_.
     io_bind (chan_op c (Prefetch c 1)) (\<lambda>_.
     io_bind (log ''[ADVANCED] Approved payments consumer started'') (\<lambda>_.
     chan_op c (Consume c ''approved_payments'')))))"

definition consumeRefunds :: "unit io" where
  "consumeRefunds =
     io_bind getChannel (\<lambda>c.
     io_bind (declare_and_bind c ''refund_requests'' routingPatterns_refund) (\<lambda>_.
     io_bind (chan_op c (Prefetch c 1)) (\<lambda>_.
     io_bind (log ''[ADVANCED] Refund consumer started'') (\<lambda>_.
     chan_op c (Consume c ''refund_requests'')))))"

definition consumeEmailNotifications :: "unit io" where
  "consumeEmailNotifications =
     io_bind getChannel (\<lambda>c.
     io_bind (declare_and_bind c ''email_notifications'' ''payment.*'') (\<lambda>_.
     io_bind (chan_op c (Prefetch c 10)) (\<lambda>_.
     io_bind (log ''[ADVANCED] Email notification consumer started'') (\<lambda>_.
     chan_op c (Consume c ''email_notifications'')))))"

definition consumeAuditLogs :: "unit io" where
  "consumeAuditLogs =
     io_bind getChannel (\<lambda>c.
     io_bind (declare_and_bind c ''audit_logs'' ''payment.*'') (\<lambda>_.
     io_bind (log ''[ADVANCED] Audit log consumer started'') (\<lambda>_.
     chan_op c (Consume c ''audit_logs''))))"

definition AdvancedConsumer_onModuleInit :: "unit io" where
  "AdvancedConsumer_onModuleInit =
     io_bind waitForRabbitMQ (\<lambda>_.
     io_bind consumeApprovedPayments (\<lambda>_.
     io_bind consumeRefunds (\<lambda>_.
     io_bind consumeEmailNotifications (\<lambda>_.
     consumeAuditLogs))))"

subsection \<open>ExpertConsumer: start-up\<close>

text \<open>
  \<^verbatim>\<open>setupRPCServer\<close> and \<^verbatim>\<open>consumeDLQ\<close> up to the registration of their callbacks, and
  \<^verbatim>\<open>onModuleInit\<close>, which declares the dead-letter queue before it starts the RPC server.
\<close>

definition setupRPCServer :: "unit io" where
  "setupRPCServer =
     io_bind getChannel (\<lambda>c.
     io_bind (assertQueue c ''payment_rpc'' True None) (\<lambda>_.
     io_bind (chan_op c (Prefetch c 1)) (\<lambda>_.
     io_bind (log ''[EXPERT] RPC Server started on queue: payment_rpc'') (\<lambda>_.
     chan_op c (Consume c ''payment_rpc'')))))"

definition consumeDLQ :: "unit io" where
  "consumeDLQ =
     io_bind getChannel (\<lambda>c.
     io_bind (log ''[EXPERT] DLQ Consumer started'') (\<lambda>_.
     chan_op c (Consume c ''payment_processing.dlq'')))"

definition ExpertConsumer_onModuleInit :: "unit io" where
  "ExpertConsumer_onModuleInit =
     io_bind waitForRabbitMQ (\<lambda>_.
     io_bind setupDeadLetterQueue (\<lambda>_.
     io_bind setupRPCServer (\<lambda>_.
     consumeDLQ)))"

section \<open>The topic exchange of the broker\<close>

fun split_dots :: "string \<Rightarrow> string list" where
  "split_dots [] = [[]]"
| "split_dots (c # cs) =
     (if c = CHR ''.'' then [] # split_dots cs
      else (case split_dots cs of [] \<Rightarrow> [[c]] | x # xs \<Rightarrow> (c # x) # xs))"

text \<open>
  Modelled from the spec: the matching of a routing key against a binding pattern is done
  by the broker, not by code of the repository. A key and a pattern are dot-delimited
  words; \<^verbatim>\<open>*\<close> matches exactly one word and \<^verbatim>\<open>#\<close> matches zero or more words.
\<close>

fun topic_match :: "string list \<Rightarrow> string list \<Rightarrow> bool" where
  "topic_match [] ks = (ks = [])"
| "topic_match (p # ps) ks =
     (if p = ''#''
      then topic_match ps ks \<or> (case ks of [] \<Rightarrow> False | k # ks' \<Rightarrow> topic_match (p # ps) ks')
      else (case ks of [] \<Rightarrow> False | k # ks' \<Rightarrow> (p = ''*'' \<or> p = k) \<and> topic_match ps ks'))"

text \<open>
  Modelled from the spec: the exchange delivers one copy of a message to every queue that
  is bound to it with a matching pattern. The bindings are the \<open>BindQueue\<close> operations
  that have reached the broker.
\<close>

fun bindings :: "event list \<Rightarrow> (string \<times> string \<times> string) list" where
  "bindings [] = []"
| "bindings (BindQueue c queue ex pattern # evs) = (queue, ex, pattern) # bindings evs"
| "bindings (ev # evs) = bindings evs"

definition route :: "(string \<times> string \<times> string) list \<Rightarrow> string \<Rightarrow> string \<Rightarrow> string list" where
  "route bs ex key =
     remdups (map fst (filter (\<lambda>(queue, ex', pattern).
        ex' = ex \<and> topic_match (split_dots pattern) (split_dots key)) bs))"

section \<open>Redelivery\<close>


text \<open>The operations that reached the broker between two worlds, and the verdicts on a delivery.\<close>

definition since :: "world \<Rightarrow> world \<Rightarrow> event list" where
  "since w w' = drop (length (trace w)) (trace w')"

fun is_verdict :: "nat \<Rightarrow> event \<Rightarrow> bool" where
  "is_verdict tag (Ack c t) = (t = tag)"
| "is_verdict tag (Nack c t allUpTo requeue) = (t = tag)"
| "is_verdict tag ev = False"

definition verdicts :: "nat \<Rightarrow> event list \<Rightarrow> event list" where
  "verdicts tag evs = filter (is_verdict tag) evs"

fun is_nack :: "event \<Rightarrow> bool" where
  "is_nack (Nack c t allUpTo requeue) = True"
| "is_nack ev = False"

text \<open>
  \<open>quiet w w'\<close>: from \<open>w\<close> to \<open>w'\<close> the fields of the service and the set of closed
  channels are the same, and the broker has seen further operations, none of them an
  acknowledgment or a rejection.
\<close>

fun is_ack_or_nack :: "event \<Rightarrow> bool" where
  "is_ack_or_nack (Ack c t) = True"
| "is_ack_or_nack (Nack c t allUpTo requeue) = True"
| "is_ack_or_nack ev = False"

definition quiet :: "world \<Rightarrow> world \<Rightarrow> bool" where
  "quiet w w' =
     (closed_chans w' = closed_chans w \<and> channel w' = channel w
      \<and> connection w' = connection w
      \<and> take (length (trace w)) (trace w') = trace w
      \<and> length (trace w) \<le> length (trace w')
      \<and> filter is_ack_or_nack (since w w') = [])"

definition quiet_io :: "'a io \<Rightarrow> bool" where
  "quiet_io m = (\<forall>w. quiet w (snd (m w)))"

text \<open>
  \<open>mute w w'\<close>: from \<open>w\<close> to \<open>w'\<close> the broker has seen further operations, none of them
  an acknowledgment or a rejection. The other definitions name values of the retry
  algorithm: the interleaving of attempts and backoff delays from retry \<open>r\<close> on, the event
  that \<open>processPayment\<close> publishes on success and the message of the simulated decline.
\<close>

definition retry_trace :: "nat \<Rightarrow> nat \<Rightarrow> event list" where
  "retry_trace r n = concat (map (\<lambda>j. [StripeDelay 1000, Delay (2 ^ j * 1000)]) [r..<r + n])"

definition complete_event :: "payment \<Rightarrow> json" where
  "complete_event p = JObj [(''paymentId'', JStr (id' p)), (''type'', JStr ''complete''),
                            (''amount'', JNum (amount p)), (''userId'', JStr (userId p))]"

definition insufficient :: string where
  "insufficient = ''Payment failed: Insufficient funds''"

definition mute :: "world \<Rightarrow> world \<Rightarrow> bool" where
  "mute w w' =
     (take (length (trace w)) (trace w') = trace w
      \<and> length (trace w) \<le> length (trace w')
      \<and> filter is_ack_or_nack (since w w') = [])"

definition mute_io :: "'a io \<Rightarrow> bool" where
  "mute_io m = (\<forall>w. mute w (snd (m w)))"

section \<open>An example world\<close>

text \<open>
  \<open>world0\<close> is the service connected to a broker on which no queue exists yet. No example
  prints a number beyond \<open>2 ^ 53\<close> or compares a string with a number, so its
  \<open>number_text\<close> and \<open>gt_coerced\<close> are never consulted.
\<close>

definition world0 :: world where
  "world0 = \<lparr>channel = Some 0, connection = Some 0, closed_chans = [], fresh = 1,
     broker_up = True, buffer_full = False, queues = (\<lambda>q. None),
     number_text = (\<lambda>n. ''1e+21''), gt_coerced = (\<lambda>v k. False),
     store = (\<lambda>k. None), stripe = (\<lambda>n. True),
     stripe_calls = 0, now = 0, trace = [], console = []\<rparr>"

definition delivery0 :: delivery where
  "delivery0 = \<lparr>deliveryTag = 7, content = ''{'', replyTo = Some ''amq.gen-1'',
     correlationId = Some ''corr-1''\<rparr>"

definition pay1 :: payment where
  "pay1 = \<lparr>id' = ''p1'', userId = ''u1'', orderId = ''o1'', amount = 50, currency = ''USD'',
     status = PENDING, stripePaymentId = None, failureReason = None, processedAt = None\<rparr>"


definition world1 :: world where
  "world1 = world0\<lparr>store := (\<lambda>k. if k = JStr ''p1'' then Some pay1 else None)\<rparr>"

definition request_status :: json where
  "request_status = JObj [(''method'', JStr ''getPaymentStatus''), (''paymentId'', JStr ''p1'')]"

definition request_retry :: json where
  "request_retry = JObj [(''method'', JStr ''processPaymentWithRetry''), (''paymentId'', JStr ''p1'')]"

definition world_twice :: world where
  "world_twice = world1\<lparr>stripe := (\<lambda>n. 2 \<le> n)\<rparr>"

definition world_never :: world where
  "world_never = world1\<lparr>stripe := (\<lambda>n. False)\<rparr>"

definition request_unknown :: json where
  "request_unknown = JObj [(''method'', JStr ''processPaymentWithRetry''), (''paymentId'', JStr ''p9'')]"

text \<open>The world once \<open>ExpertConsumer_onModuleInit\<close> has run in \<open>w\<close>.\<close>

definition started :: "world \<Rightarrow> world" where
  "started w = snd (ExpertConsumer_onModuleInit w)"

section \<open>Auxiliary facts\<close>

lemmas io_defs = io_return_def io_throw_def io_bind_def io_catch_def io_lift_def

lemma quiet_iff:
  "quiet w w' \<longleftrightarrow>
     closed_chans w' = closed_chans w \<and> channel w' = channel w \<and> connection w' = connection w
     \<and> (\<exists>evs. trace w' = trace w @ evs \<and> filter is_ack_or_nack evs = [])"
proof
  assume q: "quiet w w'"
  then have "trace w' = trace w @ since w w'"
    unfolding quiet_def since_def by (metis append_take_drop_id)
  with q show "closed_chans w' = closed_chans w \<and> channel w' = channel w \<and> connection w' = connection w
     \<and> (\<exists>evs. trace w' = trace w @ evs \<and> filter is_ack_or_nack evs = [])"
    unfolding quiet_def by blast
next
  assume "closed_chans w' = closed_chans w \<and> channel w' = channel w \<and> connection w' = connection w
     \<and> (\<exists>evs. trace w' = trace w @ evs \<and> filter is_ack_or_nack evs = [])"
  then show "quiet w w'"
    unfolding quiet_def since_def by auto
qed

lemma quiet_refl: "quiet w w"
  by (simp add: quiet_iff)

lemma quiet_trans: "quiet w w1 \<Longrightarrow> quiet w1 w2 \<Longrightarrow> quiet w w2"
  unfolding quiet_iff by auto

lemma quiet_ioI: "(\<And>w. quiet w (snd (m w))) \<Longrightarrow> quiet_io m"
  by (simp add: quiet_io_def)

lemma quiet_ioD: "quiet_io m \<Longrightarrow> m w = (r, w') \<Longrightarrow> quiet w w'"
  unfolding quiet_io_def by (metis snd_conv)

lemma quiet_io_return [intro!, simp]: "quiet_io (io_return x)"
  by (simp add: quiet_io_def io_return_def quiet_refl)

lemma quiet_io_throw [intro!, simp]: "quiet_io (io_throw e)"
  by (simp add: quiet_io_def io_throw_def quiet_refl)

lemma quiet_io_lift [intro!, simp]: "quiet_io (io_lift r)"
  by (simp add: quiet_io_def io_lift_def quiet_refl)

lemma quiet_io_log [intro!, simp]: "quiet_io (log s)"
  by (simp add: quiet_io_def log_def quiet_iff)

lemma quiet_io_bind [intro!]:
  assumes "quiet_io m" and "\<And>x. quiet_io (f x)"
  shows "quiet_io (io_bind m f)"
proof (rule quiet_ioI)
  fix w
  obtain r w1 where m: "m w = (r, w1)" by (cases "m w")
  have q1: "quiet w w1" using assms(1) m by (rule quiet_ioD)
  show "quiet w (snd (io_bind m f w))"
  proof (cases r)
    case (Inl e)
    then show ?thesis using m q1 by (simp add: io_bind_def)
  next
    case (Inr x)
    obtain r2 w2 where f: "f x w1 = (r2, w2)" by (cases "f x w1")
    have "quiet w1 w2" using assms(2) f by (rule quiet_ioD)
    then show ?thesis using m Inr f q1 by (auto simp: io_bind_def intro: quiet_trans)
  qed
qed

lemma quiet_io_catch [intro!]:
  assumes "quiet_io m" and "\<And>e. quiet_io (h e)"
  shows "quiet_io (io_catch m h)"
proof (rule quiet_ioI)
  fix w
  obtain r w1 where m: "m w = (r, w1)" by (cases "m w")
  have q1: "quiet w w1" using assms(1) m by (rule quiet_ioD)
  show "quiet w (snd (io_catch m h w))"
  proof (cases r)
    case (Inr x)
    then show ?thesis using m q1 by (simp add: io_catch_def)
  next
    case (Inl e)
    obtain r2 w2 where f: "h e w1 = (r2, w2)" by (cases "h e w1")
    have "quiet w1 w2" using assms(2) f by (rule quiet_ioD)
    then show ?thesis using m Inl f q1 by (auto simp: io_catch_def intro: quiet_trans)
  qed
qed


lemma quiet_io_chan_op [intro!]: "\<not> is_ack_or_nack ev \<Longrightarrow> quiet_io (chan_op c ev)"
  by (simp add: quiet_io_def chan_op_def emit_def quiet_iff)

lemma quiet_io_this_channel [intro!, simp]: "quiet_io (this_channel n)"
  by (simp add: quiet_io_def this_channel_def quiet_refl split: option.split)

lemma quiet_io_getChannel [intro!, simp]: "quiet_io getChannel"
  by (simp add: quiet_io_def getChannel_def quiet_refl split: option.split)

lemma quiet_io_read_prop [intro!, simp]: "quiet_io (read_prop v k)"
  by (simp add: read_prop_def)

lemma quiet_io_JSON_parse [intro!, simp]: "quiet_io (JSON_parse parse s)"
  by (simp add: JSON_parse_def split: option.split)

lemma quiet_io_findOne [intro!, simp]: "quiet_io (findOne i)"
  by (simp add: quiet_io_def findOne_def quiet_refl split: option.split)

lemma quiet_io_same [intro!, simp]: "quiet_io (\<lambda>w. (f w, w))"
  by (simp add: quiet_io_def quiet_refl)

lemma quiet_io_sendToQueue [intro!, simp]: "quiet_io (sendToQueue c q b p corr)"
  unfolding sendToQueue_def
  by (intro quiet_io_bind quiet_io_chan_op quiet_io_same) simp


lemma quiet_io_delay [intro!, simp]: "quiet_io (delay ms)"
  by (simp add: quiet_io_def delay_def sleep_def emit_def quiet_iff)

lemma quiet_io_createPaymentIntent [intro!, simp]: "quiet_io (createPaymentIntent a cur)"
  by (simp add: quiet_io_def createPaymentIntent_def Let_def sleep_def emit_def quiet_iff)


lemma quiet_io_sendToTopicExchange [intro!, simp]: "quiet_io (sendToTopicExchange ex k m)"
  unfolding sendToTopicExchange_def by (intro quiet_io_bind quiet_io_chan_op) auto

lemma quiet_save: "quiet w (save p w)"
  by (simp add: save_def quiet_iff)

lemma quiet_io_save_throw: "quiet_io (\<lambda>w. (r, save p w))"
  by (simp add: quiet_io_def quiet_save)

lemma quiet_io_processPayment_failed [intro!, simp]: "quiet_io (processPayment_failed p e)"
  unfolding processPayment_failed_def
  by (intro quiet_io_bind quiet_io_log quiet_io_save_throw)

lemma quiet_io_processPayment [intro!, simp]: "quiet_io (processPayment p)"
proof (rule quiet_ioI)
  fix w
  let ?p1 = "p\<lparr>status := PROCESSING\<rparr>"
  let ?w1 = "save ?p1 w"
  have q1: "quiet w ?w1" by (rule quiet_save)
  obtain r w2 where c: "createPaymentIntent (amount ?p1) (currency ?p1) ?w1 = (r, w2)"
    by (cases "createPaymentIntent (amount ?p1) (currency ?p1) ?w1")
  have q2: "quiet ?w1 w2" using quiet_io_createPaymentIntent c by (rule quiet_ioD)
  show "quiet w (snd (processPayment p w))"
  proof (cases r)
    case (Inl e)
    obtain r3 w3 where f: "processPayment_failed ?p1 e w2 = (r3, w3)"
      by (cases "processPayment_failed ?p1 e w2")
    have "quiet w2 w3" using quiet_io_processPayment_failed f by (rule quiet_ioD)
    with q1 q2 have "quiet w w3" by (blast intro: quiet_trans)
    then show ?thesis using c Inl f by (simp add: processPayment_def Let_def)
  next
    case (Inr rid)
    let ?p2 = "?p1\<lparr>status := COMPLETED, stripePaymentId := Some rid, processedAt := Some (now w2)\<rparr>"
    let ?w3 = "save ?p2 w2"
    let ?m = "JObj [(''paymentId'', JStr (id' ?p2)), (''type'', JStr ''complete''),
                            (''amount'', JNum (amount ?p2)), (''userId'', JStr (userId ?p2))]"
    have q3: "quiet w ?w3" using q1 q2 quiet_save by (blast intro: quiet_trans)
    obtain r4 w4 where s: "sendToTopicExchange ''payment_events'' ''payment.complete'' ?m ?w3 = (r4, w4)"
      by (cases "sendToTopicExchange ''payment_events'' ''payment.complete'' ?m ?w3")
    have q4: "quiet w w4" using q3 quiet_ioD [OF quiet_io_sendToTopicExchange s] by (blast intro: quiet_trans)
    show ?thesis
    proof (cases r4)
      case (Inl e)
      obtain r5 w5 where f: "processPayment_failed ?p2 e w4 = (r5, w5)"
        by (cases "processPayment_failed ?p2 e w4")
      have "quiet w4 w5" using quiet_io_processPayment_failed f by (rule quiet_ioD)
      with q4 have "quiet w w5" by (blast intro: quiet_trans)
      then show ?thesis using c Inr s Inl f by (simp add: processPayment_def Let_def)
    next
      case (Inr u)
      obtain r5 w5 where f: "log (''Payment '' @ id' ?p2 @ '' processed successfully'') w4 = (r5, w5)"
        by (cases "log (''Payment '' @ id' ?p2 @ '' processed successfully'') w4")
      have "quiet w4 w5" using quiet_io_log f by (rule quiet_ioD)
      with q4 have "quiet w w5" by (blast intro: quiet_trans)
      then show ?thesis using c \<open>r = Inr rid\<close> s Inr f by (simp add: processPayment_def Let_def)
    qed
  qed
qed

lemma verdict_is_ack_or_nack: "is_verdict t ev \<Longrightarrow> is_ack_or_nack ev"
  by (cases ev) auto

lemma nack_is_ack_or_nack: "is_nack ev \<Longrightarrow> is_ack_or_nack ev"
  by (cases ev) auto

lemma filter_empty_mono:
  assumes "filter P xs = []" and "\<And>x. Q x \<Longrightarrow> P x"
  shows "filter Q xs = []"
  using assms by (induction xs) (auto split: if_splits)

lemma quiet_chan_open: "quiet w w1 \<Longrightarrow> chan_open w1 c = chan_open w c"
  by (simp add: quiet_def chan_open_def)

lemma since_quiet_append:
  assumes "quiet w w1" and "trace w2 = trace w1 @ es"
  shows "verdicts t (since w w2) = verdicts t es"
    and "filter is_nack (since w w2) = filter is_nack es"
proof -
  from assms(1) obtain evs where e: "trace w1 = trace w @ evs" "filter is_ack_or_nack evs = []"
    unfolding quiet_iff by blast
  have v: "filter (is_verdict t) evs = []"
    using e(2) by (rule filter_empty_mono) (rule verdict_is_ack_or_nack)
  have n: "filter is_nack evs = []"
    using e(2) by (rule filter_empty_mono) (rule nack_is_ack_or_nack)
  have s: "since w w2 = evs @ es" using e(1) assms(2) by (simp add: since_def)
  show "verdicts t (since w w2) = verdicts t es" using s v by (simp add: verdicts_def)
  show "filter is_nack (since w w2) = filter is_nack es" using s n by simp
qed

lemma quiet_io_consumePayments_work: "quiet_io (consumePayments_work parse msg)"
  unfolding consumePayments_work_def
  by (intro quiet_io_bind quiet_io_JSON_parse quiet_io_log quiet_io_read_prop quiet_io_findOne
        quiet_io_processPayment)




lemma delivery0_tag: "deliveryTag delivery0 = 7"
  by (simp add: delivery0_def)

lemma started_eq:
  assumes "channel w = Some c" and "chan_open w c"
    and "queues w ''payment_processing.dlq'' = None" and "queues w ''payment_rpc'' = None"
  shows "ExpertConsumer_onModuleInit w =
    (Inr (), w\<lparr>queues := (queues w)(''payment_processing.dlq'' := Some (True, Some 3600000),
                                    ''payment_rpc'' := Some (True, None)),
              trace := trace w @ [AssertQueue c ''payment_processing.dlq'' True (Some 3600000),
                 AssertQueue c ''payment_rpc'' True None, Prefetch c 1, Consume c ''payment_rpc'',
                 Consume c ''payment_processing.dlq''],
              console := console w @ [''[EXPERT] Dead Letter Queue set up: payment_processing.dlq'',
                 ''[EXPERT] RPC Server started on queue: payment_rpc'',
                 ''[EXPERT] DLQ Consumer started'']\<rparr>)"
  using assms
  by (simp add: ExpertConsumer_onModuleInit_def waitForRabbitMQ_def waitForRabbitMQ_from.simps [of 0]
      setupDeadLetterQueue_def setupRPCServer_def consumeDLQ_def getChannel_def io_defs
      assertQueue_def chan_op_def chan_open_def emit_def log_def)

lemma message_mk_error: "message (mk_error k s) = s"
  by (simp add: mk_error_def)

lemma attempt_fail:
  assumes "get_prop request ''paymentId'' = Inr (JStr (id' p))"
    and "store w (JStr (id' p)) = Some p"
    and "\<not> stripe w (stripe_calls w)"
  shows "\<exists>w1 p1. processWithRetry_attempt request w = (Inl (mk_error PlainError insufficient), w1)
     \<and> store w1 (JStr (id' p)) = Some p1 \<and> id' p1 = id' p \<and> amount p1 = amount p
     \<and> userId p1 = userId p
     \<and> channel w1 = channel w \<and> closed_chans w1 = closed_chans w \<and> queues w1 = queues w
     \<and> stripe w1 = stripe w \<and> stripe_calls w1 = Suc (stripe_calls w)
     \<and> trace w1 = trace w @ [StripeDelay 1000]"
  using assms
  by (simp add: processWithRetry_attempt_def io_defs read_prop_def findOne_def processPayment_def
      Let_def createPaymentIntent_def sleep_def emit_def save_def processPayment_failed_def
      log_def insufficient_def mk_error_def)

lemma attempt_success:
  assumes "get_prop request ''paymentId'' = Inr (JStr (id' p))"
    and "store w (JStr (id' p)) = Some p"
    and "stripe w (stripe_calls w)"
    and "channel w = Some c" and "chan_open w c"
  shows "\<exists>w1. processWithRetry_attempt request w = (Inr p, w1)
     \<and> trace w1 = trace w @ [StripeDelay 1000, AssertExchange c ''payment_events'' ''topic'' True,
          Publish c ''payment_events'' ''payment.complete'' (complete_event p) True]"
  using assms
  by (simp add: processWithRetry_attempt_def io_defs read_prop_def findOne_def processPayment_def
      Let_def createPaymentIntent_def sleep_def emit_def save_def
      log_def sendToTopicExchange_def this_channel_def chan_op_def chan_open_def
      complete_event_def)

lemma attempt_not_found:
  assumes "get_prop request ''paymentId'' = Inr i" and "store w i = None"
  shows "\<exists>e. processWithRetry_attempt request w = (Inl e, w)"
  using assms
  by (simp add: processWithRetry_attempt_def io_defs read_prop_def findOne_def)

lemma backoff_eq:
  "\<exists>w2. backoff r w = (Inr (), w2) \<and> store w2 = store w \<and> channel w2 = channel w
     \<and> closed_chans w2 = closed_chans w \<and> queues w2 = queues w \<and> stripe w2 = stripe w
     \<and> stripe_calls w2 = stripe_calls w
     \<and> trace w2 = trace w @ [Delay (2 ^ r * 1000)]"
  by (simp add: backoff_def io_defs delay_def sleep_def emit_def log_def)

lemma retry_trace_0: "retry_trace r 0 = []"
  by (simp add: retry_trace_def)

lemma retry_trace_Suc:
  "retry_trace r (Suc n) = [StripeDelay 1000, Delay (2 ^ r * 1000)] @ retry_trace (Suc r) n"
  by (simp add: retry_trace_def upt_conv_Cons)

lemma complete_event_cong:
  "id' p1 = id' p \<Longrightarrow> amount p1 = amount p \<Longrightarrow> userId p1 = userId p
     \<Longrightarrow> complete_event p1 = complete_event p"
  by (simp add: complete_event_def)

lemma retry_succeeds:
  assumes "get_prop request ''paymentId'' = Inr (JStr (id' p))"
    and "store w (JStr (id' p)) = Some p"
    and "channel w = Some c" and "chan_open w c"
    and "\<forall>j<n. \<not> stripe w (stripe_calls w + j)"
    and "stripe w (stripe_calls w + n)"
    and "r + n \<le> maxRetries"
  shows "\<exists>w'. processWithRetry request r w =
            (Inr (JObj [(''success'', JBool True), (''paymentId'', JStr (id' p)),
                        (''retries'', JNum (int (r + n)))]), w')
          \<and> trace w' = trace w @ retry_trace r n
                @ [StripeDelay 1000, AssertExchange c ''payment_events'' ''topic'' True,
                   Publish c ''payment_events'' ''payment.complete'' (complete_event p) True]"
  using assms
proof (induction n arbitrary: r w p)
  case 0
  from attempt_success [OF "0.prems"(1,2) _ "0.prems"(3,4)] "0.prems"(6)
  obtain w1 where a: "processWithRetry_attempt request w = (Inr p, w1)"
    and t: "trace w1 = trace w @ [StripeDelay 1000, AssertExchange c ''payment_events'' ''topic'' True,
          Publish c ''payment_events'' ''payment.complete'' (complete_event p) True]"
    by auto
  show ?case using a t by (simp add: processWithRetry.simps [of request r w] retry_trace_0)
next
  case (Suc n)
  have f0: "\<not> stripe w (stripe_calls w)" using Suc.prems(5) by (metis add.right_neutral zero_less_Suc)
  from attempt_fail [OF Suc.prems(1,2) f0]
  obtain w1 p1 where a: "processWithRetry_attempt request w = (Inl (mk_error PlainError insufficient), w1)"
    and s1: "store w1 (JStr (id' p)) = Some p1" and i1: "id' p1 = id' p"
    and am1: "amount p1 = amount p" and u1: "userId p1 = userId p"
    and c1: "channel w1 = channel w" and cl1: "closed_chans w1 = closed_chans w"
    and st1: "stripe w1 = stripe w" and sc1: "stripe_calls w1 = Suc (stripe_calls w)"
    and t1: "trace w1 = trace w @ [StripeDelay 1000]"
    by blast
  from backoff_eq [of r w1]
  obtain w2 where b: "backoff r w1 = (Inr (), w2)" and s2: "store w2 = store w1"
    and c2: "channel w2 = channel w1" and cl2: "closed_chans w2 = closed_chans w1"
    and st2: "stripe w2 = stripe w1" and sc2: "stripe_calls w2 = stripe_calls w1"
    and t2: "trace w2 = trace w1 @ [Delay (2 ^ r * 1000)]"
    by blast
  have lt: "r < maxRetries" using Suc.prems(7) by simp
  have p1: "get_prop request ''paymentId'' = Inr (JStr (id' p1))" using Suc.prems(1) i1 by simp
  have p2: "store w2 (JStr (id' p1)) = Some p1" using s1 s2 i1 by simp
  have p3: "channel w2 = Some c" using c1 c2 Suc.prems(3) by simp
  have p4: "chan_open w2 c" using cl1 cl2 Suc.prems(4) by (simp add: chan_open_def)
  have p5: "\<forall>j<n. \<not> stripe w2 (stripe_calls w2 + j)"
  proof (intro allI impI)
    fix j assume "j < n"
    then have "Suc j < Suc n" by simp
    with Suc.prems(5) have "\<not> stripe w (stripe_calls w + Suc j)" by blast
    then show "\<not> stripe w2 (stripe_calls w2 + j)" using st1 st2 sc1 sc2 by simp
  qed
  have p6: "stripe w2 (stripe_calls w2 + n)" using Suc.prems(6) st1 st2 sc1 sc2 by simp
  have p7: "Suc r + n \<le> maxRetries" using Suc.prems(7) by simp
  from Suc.IH [OF p1 p2 p3 p4 p5 p6 p7]
  obtain w' where r: "processWithRetry request (Suc r) w2 =
            (Inr (JObj [(''success'', JBool True), (''paymentId'', JStr (id' p1)),
                        (''retries'', JNum (int (Suc r + n)))]), w')"
    and t: "trace w' = trace w2 @ retry_trace (Suc r) n
                @ [StripeDelay 1000, AssertExchange c ''payment_events'' ''topic'' True,
                   Publish c ''payment_events'' ''payment.complete'' (complete_event p1) True]"
    by blast
  have "processWithRetry request r w = processWithRetry request (Suc r) w2"
    using a b lt by (simp add: processWithRetry.simps [of request r w])
  moreover have "complete_event p1 = complete_event p"
    using i1 am1 u1 by (rule complete_event_cong)
  ultimately show ?case using r t t1 t2 i1 by (simp add: retry_trace_Suc)
qed

text \<open>The deposit when the dead-letter queue exists with another specification.\<close>

lemma deposit_refused:
  assumes "channel w = Some c" and "chan_open w c"
    and "queues w ''payment_processing.dlq'' = Some spec" and "spec \<noteq> (True, None)"
  shows "\<exists>w'. io_bind (sendToDLQ ''payment_processing'' request reason) k w
                 = (Inl precondition_failed, w')
     \<and> trace w' = trace w @ [AssertQueue c ''payment_processing.dlq'' True None, ChannelClosed c]
     \<and> \<not> chan_open w' c"
  using assms
  by (simp add: sendToDLQ_def io_defs Let_def this_channel_def assertQueue_def chan_open_def
      emit_def)

lemma retry_exhausted_refused:
  assumes "get_prop request ''paymentId'' = Inr (JStr (id' p))"
    and "store w (JStr (id' p)) = Some p"
    and "channel w = Some c" and "chan_open w c"
    and "queues w ''payment_processing.dlq'' = Some spec" and "spec \<noteq> (True, None)"
    and "\<forall>j\<le>n. \<not> stripe w (stripe_calls w + j)"
    and "r + n = maxRetries"
  shows "\<exists>w'. processWithRetry request r w = (Inl precondition_failed, w')
          \<and> trace w' = trace w @ retry_trace r n
                @ [StripeDelay 1000, AssertQueue c ''payment_processing.dlq'' True None,
                   ChannelClosed c]
          \<and> \<not> chan_open w' c"
  using assms
proof (induction n arbitrary: r w p)
  case 0
  have f0: "\<not> stripe w (stripe_calls w)" using "0.prems"(7) by simp
  from attempt_fail [OF "0.prems"(1,2) f0]
  obtain w1 where a: "processWithRetry_attempt request w = (Inl (mk_error PlainError insufficient), w1)"
    and c1: "channel w1 = channel w" and cl1: "closed_chans w1 = closed_chans w"
    and q1: "queues w1 = queues w"
    and t1: "trace w1 = trace w @ [StripeDelay 1000]"
    by blast
  have ch: "channel w1 = Some c" "chan_open w1 c"
    using c1 cl1 "0.prems"(3,4) by (simp_all add: chan_open_def)
  have qs: "queues w1 ''payment_processing.dlq'' = Some spec" using q1 "0.prems"(5) by simp
  have nl: "\<not> r < maxRetries" using "0.prems"(8) by simp
  let ?k = "\<lambda>_::unit. io_return (JObj [(''success'', JBool False),
                              (''error'', JStr ''Max retries exceeded''),
                              (''sentToDLQ'', JBool True)])"
  let ?reason = "''Max retries exceeded: '' @ message (mk_error PlainError insufficient)"
  have "processWithRetry request r w = io_bind (sendToDLQ ''payment_processing'' request ?reason) ?k w1"
    using a nl by (simp add: processWithRetry.simps [of request r w])
  moreover from deposit_refused [OF ch qs "0.prems"(6), of request ?reason ?k]
  obtain w' where "io_bind (sendToDLQ ''payment_processing'' request ?reason) ?k w1
                 = (Inl precondition_failed, w')"
     and "trace w' = trace w1 @ [AssertQueue c ''payment_processing.dlq'' True None, ChannelClosed c]"
     and "\<not> chan_open w' c" by blast
  ultimately show ?case using t1 by (simp add: retry_trace_0)
next
  case (Suc n)
  have f0: "\<not> stripe w (stripe_calls w)" using Suc.prems(7) by (metis add.right_neutral le0)
  from attempt_fail [OF Suc.prems(1,2) f0]
  obtain w1 p1 where a: "processWithRetry_attempt request w = (Inl (mk_error PlainError insufficient), w1)"
    and s1: "store w1 (JStr (id' p)) = Some p1" and i1: "id' p1 = id' p"
    and c1: "channel w1 = channel w" and cl1: "closed_chans w1 = closed_chans w"
    and q1: "queues w1 = queues w"
    and st1: "stripe w1 = stripe w" and sc1: "stripe_calls w1 = Suc (stripe_calls w)"
    and t1: "trace w1 = trace w @ [StripeDelay 1000]"
    by blast
  from backoff_eq [of r w1]
  obtain w2 where b: "backoff r w1 = (Inr (), w2)" and s2: "store w2 = store w1"
    and c2: "channel w2 = channel w1" and cl2: "closed_chans w2 = closed_chans w1"
    and q2: "queues w2 = queues w1"
    and st2: "stripe w2 = stripe w1" and sc2: "stripe_calls w2 = stripe_calls w1"
    and t2: "trace w2 = trace w1 @ [Delay (2 ^ r * 1000)]"
    by blast
  have lt: "r < maxRetries" using Suc.prems(8) by simp
  have p1: "get_prop request ''paymentId'' = Inr (JStr (id' p1))" using Suc.prems(1) i1 by simp
  have p2: "store w2 (JStr (id' p1)) = Some p1" using s1 s2 i1 by simp
  have p3: "channel w2 = Some c" using c1 c2 Suc.prems(3) by simp
  have p4: "chan_open w2 c" using cl1 cl2 Suc.prems(4) by (simp add: chan_open_def)
  have p5: "queues w2 ''payment_processing.dlq'' = Some spec" using q1 q2 Suc.prems(5) by simp
  have p6: "\<forall>j\<le>n. \<not> stripe w2 (stripe_calls w2 + j)"
  proof (intro allI impI)
    fix j assume "j \<le> n"
    then have "Suc j \<le> Suc n" by simp
    with Suc.prems(7) have "\<not> stripe w (stripe_calls w + Suc j)" by blast
    then show "\<not> stripe w2 (stripe_calls w2 + j)" using st1 st2 sc1 sc2 by simp
  qed
  have p7: "Suc r + n = maxRetries" using Suc.prems(8) by simp
  from Suc.IH [OF p1 p2 p3 p4 p5 Suc.prems(6) p6 p7]
  obtain w' where r: "processWithRetry request (Suc r) w2 = (Inl precondition_failed, w')"
    and t: "trace w' = trace w2 @ retry_trace (Suc r) n
                @ [StripeDelay 1000, AssertQueue c ''payment_processing.dlq'' True None,
                   ChannelClosed c]"
    and o: "\<not> chan_open w' c"
    by blast
  have "processWithRetry request r w = processWithRetry request (Suc r) w2"
    using a b lt by (simp add: processWithRetry.simps [of request r w])
  then show ?case using r t o t1 t2 by (simp add: retry_trace_Suc)
qed

lemma retry_not_found_refused:
  assumes "get_prop request ''paymentId'' = Inr i" and "store w i = None"
    and "channel w = Some c" and "chan_open w c"
    and "queues w ''payment_processing.dlq'' = Some spec" and "spec \<noteq> (True, None)"
    and "r + n = maxRetries"
  shows "\<exists>w'. processWithRetry request r w = (Inl precondition_failed, w')
          \<and> trace w' = trace w @ map (\<lambda>j. Delay (2 ^ j * 1000)) [r..<r + n]
                @ [AssertQueue c ''payment_processing.dlq'' True None, ChannelClosed c]
          \<and> \<not> chan_open w' c"
  using assms
proof (induction n arbitrary: r w)
  case 0
  from attempt_not_found [OF "0.prems"(1,2)]
  obtain e where a: "processWithRetry_attempt request w = (Inl e, w)" by blast
  have nl: "\<not> r < maxRetries" using "0.prems"(7) by simp
  let ?k = "\<lambda>_::unit. io_return (JObj [(''success'', JBool False),
                              (''error'', JStr ''Max retries exceeded''),
                              (''sentToDLQ'', JBool True)])"
  let ?reason = "''Max retries exceeded: '' @ message e"
  have "processWithRetry request r w = io_bind (sendToDLQ ''payment_processing'' request ?reason) ?k w"
    using a nl by (simp add: processWithRetry.simps [of request r w])
  moreover from deposit_refused [OF "0.prems"(3,4,5,6), of request ?reason ?k]
  obtain w' where "io_bind (sendToDLQ ''payment_processing'' request ?reason) ?k w
                 = (Inl precondition_failed, w')"
     and "trace w' = trace w @ [AssertQueue c ''payment_processing.dlq'' True None, ChannelClosed c]"
     and "\<not> chan_open w' c" by blast
  ultimately show ?case by simp
next
  case (Suc n)
  from attempt_not_found [OF Suc.prems(1,2)]
  obtain e where a: "processWithRetry_attempt request w = (Inl e, w)" by blast
  from backoff_eq [of r w]
  obtain w2 where b: "backoff r w = (Inr (), w2)" and s2: "store w2 = store w"
    and c2: "channel w2 = channel w" and cl2: "closed_chans w2 = closed_chans w"
    and q2: "queues w2 = queues w"
    and t2: "trace w2 = trace w @ [Delay (2 ^ r * 1000)]"
    by blast
  have lt: "r < maxRetries" using Suc.prems(7) by simp
  have p2: "store w2 i = None" using s2 Suc.prems(2) by simp
  have p3: "channel w2 = Some c" using c2 Suc.prems(3) by simp
  have p4: "chan_open w2 c" using cl2 Suc.prems(4) by (simp add: chan_open_def)
  have p5: "queues w2 ''payment_processing.dlq'' = Some spec" using q2 Suc.prems(5) by simp
  have p7: "Suc r + n = maxRetries" using Suc.prems(7) by simp
  from Suc.IH [OF Suc.prems(1) p2 p3 p4 p5 Suc.prems(6) p7]
  obtain w' where r: "processWithRetry request (Suc r) w2 = (Inl precondition_failed, w')"
    and t: "trace w' = trace w2 @ map (\<lambda>j. Delay (2 ^ j * 1000)) [Suc r..<Suc r + n]
                @ [AssertQueue c ''payment_processing.dlq'' True None, ChannelClosed c]"
    and o: "\<not> chan_open w' c"
    by blast
  have "processWithRetry request r w = processWithRetry request (Suc r) w2"
    using a b lt by (simp add: processWithRetry.simps [of request r w])
  then show ?case using r t o t2 by (simp add: upt_conv_Cons)
qed

lemma mute_iff:
  "mute w w' \<longleftrightarrow> (\<exists>evs. trace w' = trace w @ evs \<and> filter is_ack_or_nack evs = [])"
proof
  assume q: "mute w w'"
  then have "trace w' = trace w @ since w w'"
    unfolding mute_def since_def by (metis append_take_drop_id)
  with q show "\<exists>evs. trace w' = trace w @ evs \<and> filter is_ack_or_nack evs = []"
    unfolding mute_def by blast
next
  assume "\<exists>evs. trace w' = trace w @ evs \<and> filter is_ack_or_nack evs = []"
  then show "mute w w'"
    unfolding mute_def since_def by auto
qed

lemma mute_refl: "mute w w"
  by (simp add: mute_iff)

lemma mute_trans: "mute w w1 \<Longrightarrow> mute w1 w2 \<Longrightarrow> mute w w2"
  unfolding mute_iff by auto

lemma quiet_mute: "quiet w w' \<Longrightarrow> mute w w'"
  by (simp add: quiet_def mute_def)

lemma mute_ioI: "(\<And>w. mute w (snd (m w))) \<Longrightarrow> mute_io m"
  by (simp add: mute_io_def)

lemma mute_ioD: "mute_io m \<Longrightarrow> m w = (r, w') \<Longrightarrow> mute w w'"
  unfolding mute_io_def by (metis snd_conv)

lemma quiet_io_mute_io: "quiet_io m \<Longrightarrow> mute_io m"
  by (simp add: quiet_io_def mute_io_def quiet_mute)

lemma mute_io_bind:
  assumes "mute_io m" and "\<And>x. mute_io (f x)"
  shows "mute_io (io_bind m f)"
proof (rule mute_ioI)
  fix w
  obtain r w1 where m: "m w = (r, w1)" by (cases "m w")
  have q1: "mute w w1" using assms(1) m by (rule mute_ioD)
  show "mute w (snd (io_bind m f w))"
  proof (cases r)
    case (Inl e)
    then show ?thesis using m q1 by (simp add: io_bind_def)
  next
    case (Inr x)
    obtain r2 w2 where f: "f x w1 = (r2, w2)" by (cases "f x w1")
    have "mute w1 w2" using assms(2) f by (rule mute_ioD)
    then show ?thesis using m Inr f q1 by (auto simp: io_bind_def intro: mute_trans)
  qed
qed

lemma mute_io_assertQueue: "mute_io (assertQueue c queue durable ttl)"
  by (simp add: mute_io_def assertQueue_def emit_def mute_iff split: option.split)

lemma mute_io_sendToDLQ: "mute_io (sendToDLQ q m r)"
  unfolding sendToDLQ_def Let_def
  by (intro mute_io_bind mute_io_assertQueue quiet_io_mute_io quiet_io_same quiet_io_this_channel
        quiet_io_sendToQueue quiet_io_log)

lemma mute_processWithRetry: "mute w (snd (processWithRetry request retries w))"
proof (induction request retries w rule: processWithRetry.induct)
  case (1 request retries w)
  have qa: "quiet_io (processWithRetry_attempt request)"
    unfolding processWithRetry_attempt_def
    by (intro quiet_io_bind quiet_io_read_prop quiet_io_findOne quiet_io_processPayment
        quiet_io_return)
  have qb: "quiet_io (backoff retries)"
    unfolding backoff_def by (intro quiet_io_bind quiet_io_delay quiet_io_log)
  obtain r w1 where a: "processWithRetry_attempt request w = (r, w1)"
    by (cases "processWithRetry_attempt request w")
  have q1: "mute w w1" using qa a by (blast intro: quiet_mute quiet_ioD)
  show ?case
  proof (cases r)
    case (Inr p)
    then show ?thesis using a q1 by (simp add: processWithRetry.simps [of request retries w])
  next
    case (Inl e)
    show ?thesis
    proof (cases "retries < maxRetries")
      case True
      obtain r2 w2 where b: "backoff retries w1 = (r2, w2)" by (cases "backoff retries w1")
      have q2: "mute w1 w2" using qb b by (blast intro: quiet_mute quiet_ioD)
      show ?thesis
      proof (cases r2)
        case (Inl e2)
        then show ?thesis using a \<open>r = Inl e\<close> True b q1 q2
          by (simp add: processWithRetry.simps [of request retries w]) (blast intro: mute_trans)
      next
        case (Inr u)
        have "mute w2 (snd (processWithRetry request (retries + 1) w2))"
          using "1.IH" [OF a [symmetric] \<open>r = Inl e\<close> True b [symmetric] Inr] .
        with q1 q2 have "mute w (snd (processWithRetry request (retries + 1) w2))"
          by (blast intro: mute_trans)
        then show ?thesis using a \<open>r = Inl e\<close> True b Inr
          by (simp add: processWithRetry.simps [of request retries w])
      qed
    next
      case False
      let ?d = "io_bind (sendToDLQ ''payment_processing'' request
                        (''Max retries exceeded: '' @ message e)) (\<lambda>_.
             io_return (JObj [(''success'', JBool False),
                              (''error'', JStr ''Max retries exceeded''),
                              (''sentToDLQ'', JBool True)]))"
      have "mute_io ?d"
        by (intro mute_io_bind mute_io_sendToDLQ quiet_io_mute_io quiet_io_return)
      then have "mute w1 (snd (?d w1))" by (simp add: mute_io_def)
      with q1 have "mute w (snd (?d w1))" by (blast intro: mute_trans)
      then show ?thesis using a Inl False
        by (simp add: processWithRetry.simps [of request retries w])
    qed
  qed
qed

lemma mute_io_processWithRetry: "mute_io (processWithRetry request retries)"
  by (simp add: mute_io_def mute_processWithRetry)

lemma mute_io_rpc_dispatch: "mute_io (rpc_dispatch request)"
  unfolding rpc_dispatch_def
proof (rule mute_io_bind)
  show "mute_io (read_prop request ''method'')" by (intro quiet_io_mute_io quiet_io_read_prop)
next
  fix meth
  have g: "mute_io (io_bind (read_prop request ''paymentId'') (\<lambda>i.
            io_bind (findOne i) (\<lambda>payment.
            io_return (JObj [(''paymentId'', JStr (id' payment)),
                             (''status'', status_json (status payment)),
                             (''amount'', JNum (amount payment))]))))"
    by (intro quiet_io_mute_io quiet_io_bind quiet_io_read_prop quiet_io_findOne quiet_io_return)
  have u: "mute_io (io_return (JObj [(''error'', JStr ''Unknown method'')]))"
    by (intro quiet_io_mute_io quiet_io_return)
  show "mute_io (if meth = JStr ''getPaymentStatus''
       then io_bind (read_prop request ''paymentId'') (\<lambda>i.
            io_bind (findOne i) (\<lambda>payment.
            io_return (JObj [(''paymentId'', JStr (id' payment)),
                             (''status'', status_json (status payment)),
                             (''amount'', JNum (amount payment))])))
       else if meth = JStr ''processPaymentWithRetry''
       then processWithRetry request 0
       else io_return (JObj [(''error'', JStr ''Unknown method'')]))"
    using g u mute_io_processWithRetry by simp
qed

lemma mute_io_rpc_request: "mute_io (rpc_request parse msg)"
  unfolding rpc_request_def
  by (intro mute_io_bind mute_io_rpc_dispatch quiet_io_mute_io quiet_io_JSON_parse quiet_io_log)

lemma rpc_dispatch_retry:
  assumes "get_prop request ''method'' = Inr (JStr ''processPaymentWithRetry'')"
  shows "rpc_dispatch request w = processWithRetry request 0 w"
  using assms by (simp add: rpc_dispatch_def io_defs read_prop_def)

lemma retry_trace_eval:
  "retry_trace 0 n = concat (map (\<lambda>j. [StripeDelay 1000, Delay (2 ^ j * 1000)]) [0..<n])"
  "retry_trace 0 3 = [StripeDelay 1000, Delay 1000, StripeDelay 1000, Delay 2000,
                      StripeDelay 1000, Delay 4000]"
  by (simp_all add: retry_trace_def upt_conv_Cons)

lemma upt_0_3: "[0..<3] = [0, 1, 2]"
  by (simp add: upt_conv_Cons)

lemma started_example:
  assumes "channel w = Some 0" and "closed_chans w = []" and "queues w = (\<lambda>q. None)"
  shows "fst (ExpertConsumer_onModuleInit w) = Inr ()"
    and "channel (started w) = Some 0" and "chan_open (started w) 0"
    and "queues (started w) ''payment_processing.dlq'' = Some (True, Some 3600000)"
    and "store (started w) = store w" and "stripe (started w) = stripe w"
    and "stripe_calls (started w) = stripe_calls w"
proof -
  have o: "chan_open w 0" using assms(2) by (simp add: chan_open_def)
  have q: "queues w ''payment_processing.dlq'' = None" "queues w ''payment_rpc'' = None"
    using assms(3) by simp_all
  note e = started_eq [OF assms(1) o q]
  show "fst (ExpertConsumer_onModuleInit w) = Inr ()" by (simp add: e)
  show "channel (started w) = Some 0" by (simp add: started_def e assms(1))
  show "chan_open (started w) 0" by (simp add: started_def e chan_open_def assms(2))
  show "queues (started w) ''payment_processing.dlq'' = Some (True, Some 3600000)"
    by (simp add: started_def e)
  show "store (started w) = store w" by (simp add: started_def e)
  show "stripe (started w) = stripe w" by (simp add: started_def e)
  show "stripe_calls (started w) = stripe_calls w" by (simp add: started_def e)
qed

lemma example_worlds:
  "channel world1 = Some 0" "closed_chans world1 = []" "queues world1 = (\<lambda>q. None)"
  "channel world_twice = Some 0" "closed_chans world_twice = []" "queues world_twice = (\<lambda>q. None)"
  "channel world_never = Some 0" "closed_chans world_never = []" "queues world_never = (\<lambda>q. None)"
  by (simp_all add: world_never_def world_twice_def world1_def world0_def)

section \<open>The basic queue\<close>

text \<open>
  C7. The callback of the basic queue \<^verbatim>\<open>payments\<close> acknowledges every delivery it is
  handed on an open channel, whatever happens to it: whether the content fails to parse,
  the payment is not found, the processor throws or the processing succeeds, the callback
  returns normally, the only verdict it issues on the delivery is a single \<open>Ack\<close>, and it
  issues no \<open>Nack\<close> at all.
\<close>

theorem C7_basic_consumer_always_acks:
  assumes "chan_open w c"
  shows "\<exists>w'. consumePayments_handler parse c (Some msg) w = (Inr (), w')
           \<and> verdicts (deliveryTag msg) (since w w') = [Ack c (deliveryTag msg)]
           \<and> filter is_nack (since w w') = []"
proof -
  obtain r w1 where wk: "consumePayments_work parse msg w = (r, w1)"
    by (cases "consumePayments_work parse msg w")
  have q: "quiet w w1" using quiet_io_consumePayments_work wk by (rule quiet_ioD)
  have op: "chan_open w1 c" using q assms by (simp add: quiet_chan_open)
  let ?a = "Ack c (deliveryTag msg)"
  obtain w' where h: "consumePayments_handler parse c (Some msg) w = (Inr (), w')"
    and t: "trace w' = trace w1 @ [?a]"
    using wk op
    by (cases r) (auto simp: consumePayments_handler_def io_defs ack_def chan_op_def log_def
        emit_def chan_open_def)
  have "verdicts (deliveryTag msg) (since w w') = [?a]"
    using since_quiet_append(1) [OF q t] by (simp add: verdicts_def)
  moreover have "filter is_nack (since w w') = []"
    using since_quiet_append(2) [OF q t] by simp
  ultimately show ?thesis using h by blast
qed

theorem C7_basic_consumer_always_acks_witness:
  "chan_open world0 0
   \<and> (\<exists>w'. consumePayments_handler (\<lambda>s. None) 0 (Some delivery0) world0 = (Inr (), w')
           \<and> verdicts (deliveryTag delivery0) (since world0 w') = [Ack 0 (deliveryTag delivery0)]
           \<and> filter is_nack (since world0 w') = [])"
  using C7_basic_consumer_always_acks [of world0 0 "\<lambda>s. None" delivery0]
  by (simp add: chan_open_def world0_def)

section \<open>Publishing to the basic queue\<close>

text \<open>
  C10. When the payment handed to \<open>sendToPaymentQueue\<close> is \<^verbatim>\<open>null\<close> or \<^verbatim>\<open>undefined\<close>, or
  its \<^verbatim>\<open>id\<close> is absent or falsy, the call throws the error
  \<^verbatim>\<open>Invalid payment data provided\<close> and the world is the one it started in: nothing was
  serialized, asserted or published, and no reconnection was attempted.
\<close>

theorem C10_invalid_payment_rejected:
  assumes "payment = JNull \<or> payment = JUndefined \<or> \<not> truthy (get_prop_opt payment ''id'')"
  shows "sendToPaymentQueue payment w
           = (Inl (mk_error PlainError ''Invalid payment data provided''), w)"
  using assms by (auto simp: sendToPaymentQueue_def io_throw_def get_prop_opt_def)

theorem C10_invalid_payment_rejected_witness:
  "\<not> truthy (get_prop_opt (JObj [(''id'', JStr []), (''amount'', JNum 5)]) ''id'')
   \<and> sendToPaymentQueue (JObj [(''id'', JStr []), (''amount'', JNum 5)]) world0
       = (Inl (mk_error PlainError ''Invalid payment data provided''), world0)"
  using C10_invalid_payment_rejected [of "JObj [(''id'', JStr []), (''amount'', JNum 5)]" world0]
  by (simp add: get_prop_opt_def)

section \<open>The durable work queues\<close>







section \<open>The dead-letter queue\<close>




section \<open>Retry with exponential backoff\<close>

text \<open>
  C1. The RPC method \<^verbatim>\<open>processPaymentWithRetry\<close>, for a request whose \<^verbatim>\<open>paymentId\<close> is \<open>i\<close>,
  in the running program: the channel of the service is open and the dead-letter queue
  exists as \<open>setupDeadLetterQueue\<close> declared it, durable and with a time-to-live. Every
  call of the processor shows in the trace as \<open>StripeDelay 1000\<close>, every backoff as
  \<open>Delay ms\<close>.

  \<^item> If the payment exists and the processor declines it \<open>n \<le> 3\<close> times and then accepts it,
    the result is \<^verbatim>\<open>{success: true, paymentId, retries: n}\<close>; attempt \<open>0\<close> is made at once,
    and attempt \<open>j + 1\<close> follows a delay of \<open>2 ^ j\<close> seconds after attempt \<open>j\<close> failed. So
    far the code does what the claim says.
  \<^item> If the processor declines it four times, there are four attempts with delays of 1, 2
    and 4 seconds between them. Then \<open>sendToDLQ\<close> declares \<^verbatim>\<open>payment_processing.dlq\<close>
    again, without the time-to-live: the broker refuses the declaration and closes the
    channel, and the method throws that error. The request is not sent to the dead-letter
    queue and the response \<^verbatim>\<open>{success: false, error: "Max retries exceeded", sentToDLQ: true}\<close>
    is not returned.
  \<^item> If the payment does not exist, every attempt fails on the lookup, and after the same
    three delays the same refusal ends the call.
\<close>

theorem C1_retry_with_backoff_then_refused_deposit:
  assumes "get_prop request ''method'' = Inr (JStr ''processPaymentWithRetry'')"
    and "get_prop request ''paymentId'' = Inr i"
    and "channel w = Some c" and "chan_open w c"
    and "queues w ''payment_processing.dlq'' = Some (True, Some ttl)"
  shows
   "(\<forall>p n. i = JStr (id' p) \<longrightarrow> store w i = Some p \<longrightarrow> n \<le> 3
        \<longrightarrow> (\<forall>j<n. \<not> stripe w (stripe_calls w + j)) \<longrightarrow> stripe w (stripe_calls w + n) \<longrightarrow>
       (\<exists>w'. rpc_dispatch request w =
                (Inr (JObj [(''success'', JBool True), (''paymentId'', JStr (id' p)),
                            (''retries'', JNum (int n))]), w')
           \<and> since w w' =
               concat (map (\<lambda>j. [StripeDelay 1000, Delay (2 ^ j * 1000)]) [0..<n])
               @ [StripeDelay 1000, AssertExchange c ''payment_events'' ''topic'' True,
                  Publish c ''payment_events'' ''payment.complete'' (complete_event p) True]))
    \<and> (\<forall>p. i = JStr (id' p) \<longrightarrow> store w i = Some p
        \<longrightarrow> (\<forall>j<4. \<not> stripe w (stripe_calls w + j)) \<longrightarrow>
       (\<exists>w'. rpc_dispatch request w = (Inl precondition_failed, w')
           \<and> since w w' =
               [StripeDelay 1000, Delay 1000, StripeDelay 1000, Delay 2000,
                StripeDelay 1000, Delay 4000, StripeDelay 1000,
                AssertQueue c ''payment_processing.dlq'' True None, ChannelClosed c]
           \<and> \<not> chan_open w' c))
    \<and> (store w i = None \<longrightarrow>
       (\<exists>w'. rpc_dispatch request w = (Inl precondition_failed, w')
           \<and> since w w' =
               [Delay 1000, Delay 2000, Delay 4000,
                AssertQueue c ''payment_processing.dlq'' True None, ChannelClosed c]
           \<and> \<not> chan_open w' c))"
proof (intro conjI allI impI)
  fix p n
  assume i: "i = JStr (id' p)" and s: "store w i = Some p" and n: "n \<le> 3"
    and f: "\<forall>j<n. \<not> stripe w (stripe_calls w + j)" and ok: "stripe w (stripe_calls w + n)"
  have g: "get_prop request ''paymentId'' = Inr (JStr (id' p))" using assms(2) i by simp
  have s': "store w (JStr (id' p)) = Some p" using s i by simp
  have b: "0 + n \<le> maxRetries" using n by (simp add: maxRetries_def)
  from retry_succeeds [OF g s' assms(3,4) f ok b]
  show "\<exists>w'. rpc_dispatch request w =
                (Inr (JObj [(''success'', JBool True), (''paymentId'', JStr (id' p)),
                            (''retries'', JNum (int n))]), w')
           \<and> since w w' =
               concat (map (\<lambda>j. [StripeDelay 1000, Delay (2 ^ j * 1000)]) [0..<n])
               @ [StripeDelay 1000, AssertExchange c ''payment_events'' ''topic'' True,
                  Publish c ''payment_events'' ''payment.complete'' (complete_event p) True]"
    by (auto simp: since_def retry_trace_eval(1) rpc_dispatch_retry [OF assms(1)])
next
  fix p
  assume i: "i = JStr (id' p)" and s: "store w i = Some p"
    and f: "\<forall>j<4. \<not> stripe w (stripe_calls w + j)"
  have g: "get_prop request ''paymentId'' = Inr (JStr (id' p))" using assms(2) i by simp
  have s': "store w (JStr (id' p)) = Some p" using s i by simp
  have f': "\<forall>j\<le>3. \<not> stripe w (stripe_calls w + j)" using f by auto
  have b: "0 + 3 = maxRetries" by (simp add: maxRetries_def)
  have ne: "(True, Some ttl) \<noteq> (True, None)" by simp
  from retry_exhausted_refused [OF g s' assms(3,4,5) ne f' b]
  show "\<exists>w'. rpc_dispatch request w = (Inl precondition_failed, w')
           \<and> since w w' =
               [StripeDelay 1000, Delay 1000, StripeDelay 1000, Delay 2000,
                StripeDelay 1000, Delay 4000, StripeDelay 1000,
                AssertQueue c ''payment_processing.dlq'' True None, ChannelClosed c]
           \<and> \<not> chan_open w' c"
    by (auto simp: since_def retry_trace_eval(2) rpc_dispatch_retry [OF assms(1)])
next
  assume s: "store w i = None"
  have b: "0 + 3 = maxRetries" by (simp add: maxRetries_def)
  have ne: "(True, Some ttl) \<noteq> (True, None)" by simp
  from retry_not_found_refused [OF assms(2) s assms(3,4,5) ne b]
  show "\<exists>w'. rpc_dispatch request w = (Inl precondition_failed, w')
           \<and> since w w' =
               [Delay 1000, Delay 2000, Delay 4000,
                AssertQueue c ''payment_processing.dlq'' True None, ChannelClosed c]
           \<and> \<not> chan_open w' c"
    by (auto simp: since_def upt_0_3 rpc_dispatch_retry [OF assms(1)])
qed

theorem C1_retry_with_backoff_then_refused_deposit_witness:
  "get_prop request_retry ''method'' = Inr (JStr ''processPaymentWithRetry'')
   \<and> get_prop request_retry ''paymentId'' = Inr (JStr ''p1'')
   \<and> get_prop request_unknown ''method'' = Inr (JStr ''processPaymentWithRetry'')
   \<and> get_prop request_unknown ''paymentId'' = Inr (JStr ''p9'')
   \<and> fst (ExpertConsumer_onModuleInit world_never) = Inr ()
   \<and> channel (started world_never) = Some 0 \<and> chan_open (started world_never) 0
   \<and> queues (started world_never) ''payment_processing.dlq'' = Some (True, Some 3600000)
   \<and> (\<exists>w'. rpc_dispatch request_retry (started world_twice) =
                (Inr (JObj [(''success'', JBool True), (''paymentId'', JStr ''p1''),
                            (''retries'', JNum 2)]), w')
           \<and> since (started world_twice) w' =
               [StripeDelay 1000, Delay 1000, StripeDelay 1000, Delay 2000, StripeDelay 1000,
                AssertExchange 0 ''payment_events'' ''topic'' True,
                Publish 0 ''payment_events'' ''payment.complete'' (complete_event pay1) True])
   \<and> (\<exists>w'. rpc_dispatch request_retry (started world_never) = (Inl precondition_failed, w')
           \<and> since (started world_never) w' =
               [StripeDelay 1000, Delay 1000, StripeDelay 1000, Delay 2000,
                StripeDelay 1000, Delay 4000, StripeDelay 1000,
                AssertQueue 0 ''payment_processing.dlq'' True None, ChannelClosed 0]
           \<and> \<not> chan_open w' 0)
   \<and> (\<exists>w'. rpc_dispatch request_unknown (started world1) = (Inl precondition_failed, w')
           \<and> since (started world1) w' =
               [Delay 1000, Delay 2000, Delay 4000,
                AssertQueue 0 ''payment_processing.dlq'' True None, ChannelClosed 0]
           \<and> \<not> chan_open w' 0)"
proof -
  have m: "get_prop request_retry ''method'' = Inr (JStr ''processPaymentWithRetry'')"
    and g: "get_prop request_retry ''paymentId'' = Inr (JStr ''p1'')"
    by (simp_all add: request_retry_def)
  have mu: "get_prop request_unknown ''method'' = Inr (JStr ''processPaymentWithRetry'')"
    and gu: "get_prop request_unknown ''paymentId'' = Inr (JStr ''p9'')"
    by (simp_all add: request_unknown_def)
  note s1 = started_example [OF example_worlds(1,2,3)]
  note s2 = started_example [OF example_worlds(4,5,6)]
  note s3 = started_example [OF example_worlds(7,8,9)]
  have i: "JStr ''p1'' = JStr (id' pay1)" by (simp add: pay1_def)
  have v2: "store world_twice (JStr ''p1'') = Some pay1" "stripe world_twice = (\<lambda>n. 2 \<le> n)"
    "stripe_calls world_twice = 0"
    by (simp_all add: world_twice_def world1_def world0_def)
  have v3: "store world_never (JStr ''p1'') = Some pay1" "stripe world_never = (\<lambda>n. False)"
    by (simp_all add: world_never_def world1_def world0_def)
  have v1: "store world1 (JStr ''p9'') = None"
    by (simp add: world1_def world0_def)
  have st2: "store (started world_twice) (JStr ''p1'') = Some pay1"
    using s2(5) v2(1) by simp
  have st3: "store (started world_never) (JStr ''p1'') = Some pay1"
    using s3(5) v3(1) by simp
  have st1: "store (started world1) (JStr ''p9'') = None"
    using s1(5) v1 by simp
  have f2: "\<forall>j<2. \<not> stripe (started world_twice) (stripe_calls (started world_twice) + j)"
    using s2(6,7) v2(2,3) by simp
  have k2: "stripe (started world_twice) (stripe_calls (started world_twice) + 2)"
    using s2(6,7) v2(2,3) by simp
  have f3: "\<forall>j<4. \<not> stripe (started world_never) (stripe_calls (started world_never) + j)"
    using s3(6) v3(2) by simp
  have n2: "(2::nat) \<le> 3" by simp
  have u: "[0..<2] = [0, 1]" by (simp add: upt_conv_Cons)
  from C1_retry_with_backoff_then_refused_deposit [OF m g s2(2,3,4), THEN conjunct1, rule_format, OF i st2 n2 f2 [rule_format] k2]
  have a: "\<exists>w'. rpc_dispatch request_retry (started world_twice) =
                (Inr (JObj [(''success'', JBool True), (''paymentId'', JStr ''p1''),
                            (''retries'', JNum 2)]), w')
           \<and> since (started world_twice) w' =
               [StripeDelay 1000, Delay 1000, StripeDelay 1000, Delay 2000, StripeDelay 1000,
                AssertExchange 0 ''payment_events'' ''topic'' True,
                Publish 0 ''payment_events'' ''payment.complete'' (complete_event pay1) True]"
    by (simp add: u pay1_def)
  note b = C1_retry_with_backoff_then_refused_deposit [OF m g s3(2,3,4), THEN conjunct2, THEN conjunct1, rule_format,
      OF i st3 f3 [rule_format]]
  note c = C1_retry_with_backoff_then_refused_deposit [OF mu gu s1(2,3,4), THEN conjunct2, THEN conjunct2, rule_format, OF st1]
  show ?thesis using m g mu gu s3(1,2,3,4) a b c by blast
qed

section \<open>The RPC server\<close>

text \<open>
  C6. The callback of the RPC server, for a request that arrives on an open channel \<open>c\<close>
  with a reply-to queue \<open>q\<close>. Computing the response (\<open>rpc_request\<close>) issues no
  acknowledgment or rejection.

  \<^item> If the channel is still open afterwards, the code does what the claim says: when a
    response was computed, the callback sends exactly that response to \<open>q\<close> with the
    correlation id of the request and after it acknowledges the request; when the
    computation threw, it rejects the request with \<^verbatim>\<open>requeue = false\<close>. Nothing else follows
    and the callback returns normally.
  \<^item> If the channel is closed afterwards, the callback throws: the request is neither
    answered nor acknowledged nor rejected.
  \<^item> The second case happens in the running program: a \<^verbatim>\<open>processPaymentWithRetry\<close> request
    for a payment that does not exist exhausts its retries, and the refused declaration of
    \<^verbatim>\<open>payment_processing.dlq\<close> in \<open>sendToDLQ\<close> closes the channel.
\<close>

theorem C6_rpc_reply_ack_nack_or_lost_channel:
  assumes "chan_open w c" and "replyTo msg = Some q"
  shows "\<exists>r w1 res w'. rpc_request parse msg w = (r, w1)
      \<and> setupRPCServer_handler parse c (Some msg) w = (res, w')
      \<and> filter is_ack_or_nack (since w w1) = []
      \<and> (chan_open w1 c \<longrightarrow>
            res = Inr ()
            \<and> trace w' = trace w1 @
                (case r of
                   Inr response \<Rightarrow>
                     [SendToQueue c q response False (correlationId msg), Ack c (deliveryTag msg)]
                 | Inl e \<Rightarrow> [Nack c (deliveryTag msg) False False]))
      \<and> (\<not> chan_open w1 c \<longrightarrow>
            res = Inl (mk_error IllegalOperationError ''Channel closed'') \<and> trace w' = trace w1)
      \<and> (\<forall>request i ttl.
            parse (content msg) = Some request
            \<longrightarrow> get_prop request ''method'' = Inr (JStr ''processPaymentWithRetry'')
            \<longrightarrow> get_prop request ''paymentId'' = Inr i \<longrightarrow> store w i = None
            \<longrightarrow> channel w = Some c
            \<longrightarrow> queues w ''payment_processing.dlq'' = Some (True, Some ttl)
            \<longrightarrow> \<not> chan_open w1 c
                \<and> since w w1 = [Delay 1000, Delay 2000, Delay 4000,
                     AssertQueue c ''payment_processing.dlq'' True None, ChannelClosed c])"
proof -
  obtain r w1 where wk: "rpc_request parse msg w = (r, w1)"
    by (cases "rpc_request parse msg w")
  obtain res w' where h: "setupRPCServer_handler parse c (Some msg) w = (res, w')"
    by (cases "setupRPCServer_handler parse c (Some msg) w")
  have m: "filter is_ack_or_nack (since w w1) = []"
    using mute_ioD [OF mute_io_rpc_request wk] by (simp add: mute_def)
  have a: "chan_open w1 c \<longrightarrow>
            res = Inr ()
            \<and> trace w' = trace w1 @
                (case r of
                   Inr response \<Rightarrow>
                     [SendToQueue c q response False (correlationId msg), Ack c (deliveryTag msg)]
                 | Inl e \<Rightarrow> [Nack c (deliveryTag msg) False False])"
    using wk h assms(2)
    by (cases r) (auto simp: setupRPCServer_handler_def io_defs ack_def nack_def chan_op_def
        log_def emit_def chan_open_def sendToQueue_def reply_queue_def since_def)
  have b: "\<not> chan_open w1 c \<longrightarrow>
            res = Inl (mk_error IllegalOperationError ''Channel closed'') \<and> trace w' = trace w1"
    using wk h
    by (cases r) (auto simp: setupRPCServer_handler_def io_defs ack_def nack_def chan_op_def
        log_def emit_def chan_open_def sendToQueue_def since_def)
  have d: "\<not> chan_open w1 c
                \<and> since w w1 = [Delay 1000, Delay 2000, Delay 4000,
                     AssertQueue c ''payment_processing.dlq'' True None, ChannelClosed c]"
    if p: "parse (content msg) = Some request"
      and me: "get_prop request ''method'' = Inr (JStr ''processPaymentWithRetry'')"
      and g: "get_prop request ''paymentId'' = Inr i" and s: "store w i = None"
      and ch: "channel w = Some c"
      and qs: "queues w ''payment_processing.dlq'' = Some (True, Some ttl)"
    for request i ttl
  proof -
    let ?w0 = "w\<lparr>console := console w @ [''[EXPERT] RPC Request:'']\<rparr>"
    have e: "rpc_request parse msg w = processWithRetry request 0 ?w0"
      using p by (simp add: rpc_request_def JSON_parse_def io_defs log_def
          rpc_dispatch_retry [OF me])
    have s0: "store ?w0 i = None" "channel ?w0 = Some c" "chan_open ?w0 c"
      "queues ?w0 ''payment_processing.dlq'' = Some (True, Some ttl)"
      using s ch qs assms(1) by (simp_all add: chan_open_def)
    have ne: "(True, Some ttl) \<noteq> (True, None)" by simp
    have k: "0 + 3 = maxRetries" by (simp add: maxRetries_def)
    from retry_not_found_refused [OF g s0(1,2,3,4) ne k]
    obtain v where r1: "processWithRetry request 0 ?w0 = (Inl precondition_failed, v)"
      and t1: "trace v = trace ?w0 @ map (\<lambda>j. Delay (2 ^ j * 1000)) [0..<0 + 3]
                @ [AssertQueue c ''payment_processing.dlq'' True None, ChannelClosed c]"
      and o1: "\<not> chan_open v c" by blast
    from e r1 wk have "w1 = v" by simp
    with t1 o1 show ?thesis by (simp add: since_def upt_0_3)
  qed
  show ?thesis using wk h m a b d by blast
qed

theorem C6_rpc_reply_ack_nack_or_lost_channel_witness:
  "chan_open (started world1) 0 \<and> replyTo delivery0 = Some ''amq.gen-1''
   \<and> (\<exists>w'. setupRPCServer_handler (\<lambda>s. Some request_status) 0 (Some delivery0) (started world1)
              = (Inr (), w')
          \<and> since (started world1) w' =
              [SendToQueue 0 ''amq.gen-1''
                 (JObj [(''paymentId'', JStr ''p1''), (''status'', JStr ''pending''),
                        (''amount'', JNum 50)]) False (Some ''corr-1''),
               Ack 0 7])
   \<and> (\<exists>w'. setupRPCServer_handler (\<lambda>s. None) 0 (Some delivery0) (started world1) = (Inr (), w')
          \<and> since (started world1) w' = [Nack 0 7 False False])
   \<and> (\<exists>w'. setupRPCServer_handler (\<lambda>s. Some request_unknown) 0 (Some delivery0) (started world1)
              = (Inl (mk_error IllegalOperationError ''Channel closed''), w')
          \<and> since (started world1) w' =
              [Delay 1000, Delay 2000, Delay 4000,
               AssertQueue 0 ''payment_processing.dlq'' True None, ChannelClosed 0])"
proof -
  note s1 = started_example [OF example_worlds(1,2,3)]
  have h1: "chan_open (started world1) 0" by (rule s1(3))
  have h2: "replyTo delivery0 = Some ''amq.gen-1''" by (simp add: delivery0_def)
  have v: "correlationId delivery0 = Some ''corr-1''" by (simp add: delivery0_def)
  let ?W = "started world1"
  have st: "store ?W (JStr ''p1'') = Some pay1" "store ?W (JStr ''p9'') = None"
    using s1(5) by (simp_all add: world1_def world0_def)
  have r1: "rpc_request (\<lambda>s. Some request_status) delivery0 ?W =
      (Inr (JObj [(''paymentId'', JStr ''p1''), (''status'', JStr ''pending''),
                        (''amount'', JNum 50)]),
       ?W\<lparr>console := console ?W @ [''[EXPERT] RPC Request:'']\<rparr>)"
    using st(1)
    by (simp add: rpc_request_def JSON_parse_def io_defs log_def rpc_dispatch_def read_prop_def
        findOne_def pay1_def status_json_def request_status_def)
  from C6_rpc_reply_ack_nack_or_lost_channel [OF h1 h2, of "\<lambda>s. Some request_status"]
  obtain r w1 res w' where a1: "rpc_request (\<lambda>s. Some request_status) delivery0 ?W = (r, w1)"
    and a2: "setupRPCServer_handler (\<lambda>s. Some request_status) 0 (Some delivery0) ?W = (res, w')"
    and a3: "chan_open w1 0 \<longrightarrow>
            res = Inr ()
            \<and> trace w' = trace w1 @
                (case r of
                   Inr response \<Rightarrow>
                     [SendToQueue 0 ''amq.gen-1'' response False (correlationId delivery0),
                      Ack 0 (deliveryTag delivery0)]
                 | Inl e \<Rightarrow> [Nack 0 (deliveryTag delivery0) False False])"
    by blast
  from a1 r1 have e1: "r = Inr (JObj [(''paymentId'', JStr ''p1''), (''status'', JStr ''pending''),
                        (''amount'', JNum 50)])"
    and e2: "w1 = ?W\<lparr>console := console ?W @ [''[EXPERT] RPC Request:'']\<rparr>" by simp_all
  have o1: "chan_open w1 0" using h1 e2 by (simp add: chan_open_def)
  have A: "\<exists>w'. setupRPCServer_handler (\<lambda>s. Some request_status) 0 (Some delivery0) ?W
              = (Inr (), w')
          \<and> since ?W w' =
              [SendToQueue 0 ''amq.gen-1''
                 (JObj [(''paymentId'', JStr ''p1''), (''status'', JStr ''pending''),
                        (''amount'', JNum 50)]) False (Some ''corr-1''),
               Ack 0 7]"
    using a2 a3 o1 e1 e2 v by (auto simp: since_def delivery0_tag)
  have r2: "rpc_request (\<lambda>s. None) delivery0 ?W =
      (Inl (mk_error SyntaxError ''Unexpected token in JSON''), ?W)"
    by (simp add: rpc_request_def JSON_parse_def io_defs)
  from C6_rpc_reply_ack_nack_or_lost_channel [OF h1 h2, of "\<lambda>s. None"]
  obtain r w1 res w' where b1: "rpc_request (\<lambda>s. None) delivery0 ?W = (r, w1)"
    and b2: "setupRPCServer_handler (\<lambda>s. None) 0 (Some delivery0) ?W = (res, w')"
    and b3: "chan_open w1 0 \<longrightarrow>
            res = Inr ()
            \<and> trace w' = trace w1 @
                (case r of
                   Inr response \<Rightarrow>
                     [SendToQueue 0 ''amq.gen-1'' response False (correlationId delivery0),
                      Ack 0 (deliveryTag delivery0)]
                 | Inl e \<Rightarrow> [Nack 0 (deliveryTag delivery0) False False])"
    by blast
  from b1 r2 have f1: "r = Inl (mk_error SyntaxError ''Unexpected token in JSON'')"
    and f2: "w1 = ?W" by simp_all
  have B: "\<exists>w'. setupRPCServer_handler (\<lambda>s. None) 0 (Some delivery0) ?W = (Inr (), w')
          \<and> since ?W w' = [Nack 0 7 False False]"
    using b2 b3 h1 f1 f2 by (auto simp: delivery0_tag since_def)
  have mu: "get_prop request_unknown ''method'' = Inr (JStr ''processPaymentWithRetry'')"
    and gu: "get_prop request_unknown ''paymentId'' = Inr (JStr ''p9'')"
    by (simp_all add: request_unknown_def)
  from C6_rpc_reply_ack_nack_or_lost_channel [OF h1 h2, of "\<lambda>s. Some request_unknown"]
  obtain r w1 res w' where c1: "rpc_request (\<lambda>s. Some request_unknown) delivery0 ?W = (r, w1)"
    and c2: "setupRPCServer_handler (\<lambda>s. Some request_unknown) 0 (Some delivery0) ?W = (res, w')"
    and c3: "\<not> chan_open w1 0 \<longrightarrow>
            res = Inl (mk_error IllegalOperationError ''Channel closed'') \<and> trace w' = trace w1"
    and c4: "\<forall>request i ttl.
            (\<lambda>s. Some request_unknown) (content delivery0) = Some request
            \<longrightarrow> get_prop request ''method'' = Inr (JStr ''processPaymentWithRetry'')
            \<longrightarrow> get_prop request ''paymentId'' = Inr i \<longrightarrow> store ?W i = None
            \<longrightarrow> channel ?W = Some 0
            \<longrightarrow> queues ?W ''payment_processing.dlq'' = Some (True, Some ttl)
            \<longrightarrow> \<not> chan_open w1 0
                \<and> since ?W w1 = [Delay 1000, Delay 2000, Delay 4000,
                     AssertQueue 0 ''payment_processing.dlq'' True None, ChannelClosed 0]"
    by blast
  from c4 [rule_format, OF _ mu gu st(2) s1(2) s1(4)]
  have g1: "\<not> chan_open w1 0"
    and g2: "since ?W w1 = [Delay 1000, Delay 2000, Delay 4000,
                     AssertQueue 0 ''payment_processing.dlq'' True None, ChannelClosed 0]"
    by simp_all
  from c3 g1 have g3: "res = Inl (mk_error IllegalOperationError ''Channel closed'')"
    and g4: "trace w' = trace w1" by simp_all
  have "since ?W w' = since ?W w1" using g4 by (simp add: since_def)
  with c2 g2 g3
  have C: "\<exists>w'. setupRPCServer_handler (\<lambda>s. Some request_unknown) 0 (Some delivery0) ?W
              = (Inl (mk_error IllegalOperationError ''Channel closed''), w')
          \<and> since ?W w' =
              [Delay 1000, Delay 2000, Delay 4000,
               AssertQueue 0 ''payment_processing.dlq'' True None, ChannelClosed 0]"
    by simp
  show ?thesis using h1 h2 A B C by blast
qed

section \<open>The response of getPaymentStatus\<close>

text \<open>
  For the stored payment \<^verbatim>\<open>p1\<close> the response to \<^verbatim>\<open>getPaymentStatus\<close> has the keys
  \<^verbatim>\<open>paymentId\<close>, \<^verbatim>\<open>status\<close> and \<^verbatim>\<open>amount\<close>; it is not the object with the key \<^verbatim>\<open>id\<close>.
\<close>

theorem C5_getPaymentStatus_response_counterexample:
  "store world1 (JStr ''p1'') = Some pay1
   \<and> get_prop request_status ''method'' = Inr (JStr ''getPaymentStatus'')
   \<and> fst (rpc_dispatch request_status world1)
       = Inr (JObj [(''paymentId'', JStr ''p1''), (''status'', JStr ''pending''), (''amount'', JNum 50)])
   \<and> fst (rpc_dispatch request_status world1)
       \<noteq> Inr (JObj [(''id'', JStr ''p1''), (''status'', JStr ''pending''), (''amount'', JNum 50)])"
  by (simp add: rpc_dispatch_def io_defs read_prop_def findOne_def world1_def world0_def pay1_def
      status_json_def request_status_def)

text \<open>
  C5, as the code has it. For a request whose \<^verbatim>\<open>method\<close> is \<^verbatim>\<open>getPaymentStatus\<close> and whose
  \<^verbatim>\<open>paymentId\<close> names a stored payment, the response is
  \<^verbatim>\<open>{paymentId, status, amount}\<close>: the identifier of the record under the key
  \<^verbatim>\<open>paymentId\<close>, with its status and its amount, and the world is unchanged.
\<close>

theorem C5_getPaymentStatus_response:
  assumes "get_prop request ''method'' = Inr (JStr ''getPaymentStatus'')"
    and "get_prop request ''paymentId'' = Inr i"
    and "store w i = Some p"
  shows "rpc_dispatch request w =
           (Inr (JObj [(''paymentId'', JStr (id' p)), (''status'', status_json (status p)),
                       (''amount'', JNum (amount p))]), w)"
  using assms
  by (simp add: rpc_dispatch_def io_defs read_prop_def findOne_def)

theorem C5_getPaymentStatus_response_witness:
  "get_prop request_status ''method'' = Inr (JStr ''getPaymentStatus'')
   \<and> get_prop request_status ''paymentId'' = Inr (JStr ''p1'')
   \<and> store world1 (JStr ''p1'') = Some pay1
   \<and> rpc_dispatch request_status world1 =
           (Inr (JObj [(''paymentId'', JStr ''p1''), (''status'', JStr ''pending''),
                       (''amount'', JNum 50)]), world1)"
proof -
  have a: "get_prop request_status ''method'' = Inr (JStr ''getPaymentStatus'')"
    and b: "get_prop request_status ''paymentId'' = Inr (JStr ''p1'')"
    by (simp_all add: request_status_def)
  have c: "store world1 (JStr ''p1'') = Some pay1" by (simp add: world1_def)
  from C5_getPaymentStatus_response [OF a b c] have "rpc_dispatch request_status world1 =
           (Inr (JObj [(''paymentId'', JStr ''p1''), (''status'', JStr ''pending''),
                       (''amount'', JNum 50)]), world1)"
    by (simp add: pay1_def status_json_def)
  with a b c show ?thesis by blast
qed

section \<open>Connecting\<close>

text \<open>
  In a world whose channel and connection are open, \<open>connect\<close> is not a no-op: it closes
  the open channel and replaces both fields by a new connection and channel.
\<close>

theorem C3_ensureChannel_idempotent_connect_reconnects_counterexample:
  "channel world0 = Some 0 \<and> connection world0 = Some 0 \<and> chan_open world0 0
   \<and> connect world0 =
        (Inr (), world0\<lparr>channel := Some 1, connection := Some 1, closed_chans := [0], fresh := 2,
                       trace := [ChannelClosed 0, Connected 1],
                       console := [''RabbitMQ channel closed'', ''Connected to RabbitMQ'']\<rparr>)
   \<and> connect world0 \<noteq> (Inr (), world0)"
  by (simp add: connect_def io_defs channel_close_def chan_open_def emit_def log_def
      amqp_connect_def world0_def)

text \<open>
  C3, as the code has it. The no-op is \<open>ensureChannel\<close>: when both fields of the service
  are set it changes nothing. \<open>connect\<close> itself, when the broker can be reached, always
  sets up a new connection and channel; before that it closes the cached channel if there
  is one, whether it is still open or stale, and an error of that close is swallowed.
\<close>

theorem C3_ensureChannel_idempotent_connect_reconnects:
  "(channel w \<noteq> None \<and> connection w \<noteq> None \<longrightarrow> ensureChannel w = (Inr (), w))
   \<and> (broker_up w \<longrightarrow>
        (\<exists>w'. connect w = (Inr (), w')
           \<and> channel w' = Some (fresh w) \<and> connection w' = Some (fresh w)
           \<and> since w w' =
               (case channel w of
                  None \<Rightarrow> [Connected (fresh w)]
                | Some c \<Rightarrow> if chan_open w c then [ChannelClosed c, Connected (fresh w)]
                            else [Connected (fresh w)])
           \<and> (\<forall>c. channel w = Some c \<longrightarrow> \<not> chan_open w' c)))"
  by (auto simp: ensureChannel_def connect_def io_defs channel_close_def chan_open_def emit_def
      log_def amqp_connect_def since_def split: option.splits)

theorem C3_ensureChannel_idempotent_connect_reconnects_witness:
  "channel world0 \<noteq> None \<and> connection world0 \<noteq> None \<and> broker_up world0
   \<and> ensureChannel world0 = (Inr (), world0)
   \<and> (\<exists>w'. connect world0 = (Inr (), w') \<and> channel w' = Some 1 \<and> connection w' = Some 1
          \<and> since world0 w' = [ChannelClosed 0, Connected 1] \<and> \<not> chan_open w' 0)"
proof -
  have h: "channel world0 \<noteq> None \<and> connection world0 \<noteq> None" "broker_up world0"
    by (simp_all add: world0_def)
  have v: "channel world0 = Some 0" "fresh world0 = 1" "chan_open world0 0"
    by (simp_all add: world0_def chan_open_def)
  from C3_ensureChannel_idempotent_connect_reconnects [of world0] h have "ensureChannel world0 = (Inr (), world0)" by blast
  moreover from C3_ensureChannel_idempotent_connect_reconnects [of world0] h(2) v
  have "\<exists>w'. connect world0 = (Inr (), w') \<and> channel w' = Some 1 \<and> connection w' = Some 1
          \<and> since world0 w' = [ChannelClosed 0, Connected 1] \<and> \<not> chan_open w' 0"
    by auto
  ultimately show ?thesis using h by blast
qed

section \<open>Publishing without a channel\<close>

text \<open>
  C4. After the close handler of the connection has cleared the fields of the service,
  \<open>sendToWorkQueue\<close>, \<open>sendToTopicExchange\<close> and \<open>sendToDLQ\<close> dereference the \<^verbatim>\<open>null\<close>
  channel and throw a TypeError without any attempt to reconnect, while
  \<open>sendToPaymentQueue\<close>, which goes through \<open>ensureChannel\<close>, reconnects and publishes.
\<close>

theorem C4_publish_paths_on_null_channel:
  "channel (connection_closed 0 world0) = None
   \<and> sendToWorkQueue ''payment_processing'' (JObj [(''paymentId'', JStr ''p1'')])
        (connection_closed 0 world0)
       = (Inl (null_deref JNull ''assertQueue''), connection_closed 0 world0)
   \<and> sendToTopicExchange ''payment_events'' ''payment.complete'' (JObj [(''paymentId'', JStr ''p1'')])
        (connection_closed 0 world0)
       = (Inl (null_deref JNull ''assertExchange''), connection_closed 0 world0)
   \<and> sendToDLQ ''payment_processing'' (JObj [(''paymentId'', JStr ''p1'')]) ''Max retries exceeded''
        (connection_closed 0 world0)
       = (Inl (null_deref JNull ''assertQueue''), connection_closed 0 world0)
   \<and> fst (sendToPaymentQueue (JObj [(''id'', JStr ''p1'')]) (connection_closed 0 world0)) = Inr ()
   \<and> channel (snd (sendToPaymentQueue (JObj [(''id'', JStr ''p1'')]) (connection_closed 0 world0)))
       = Some 1
   \<and> trace (snd (sendToPaymentQueue (JObj [(''id'', JStr ''p1'')]) (connection_closed 0 world0)))
       = [Connected 1, AssertQueue 1 ''payments'' False None,
          SendToQueue 1 ''payments''
            (JObj [(''id'', JStr ''p1''), (''userId'', JUndefined), (''orderId'', JUndefined),
                   (''amount'', JUndefined), (''currency'', JUndefined),
                   (''paymentMethod'', JUndefined), (''last4digits'', JUndefined)])
            False None]"
  by (simp add: connection_closed_def world0_def sendToWorkQueue_def sendToTopicExchange_def
      sendToDLQ_def sendToPaymentQueue_def sendToQueueWithRetry_def ensureChannel_def
      connect_def amqp_connect_def createPaymentMessage_def read_prop_def get_prop_opt_def
      io_defs this_channel_def assertQueue_def str_of_def chan_op_def chan_open_def emit_def log_def sendToQueue_def Let_def)

section \<open>Topic routing\<close>

text \<open>
  C2. \<open>AdvancedConsumer_onModuleInit\<close> declares four bindings on \<^verbatim>\<open>payment_events\<close>. With
  them a message with the key \<^verbatim>\<open>payment.refund\<close> reaches \<^verbatim>\<open>refund_requests\<close>,
  \<^verbatim>\<open>email_notifications\<close> and \<^verbatim>\<open>audit_logs\<close>, and not \<^verbatim>\<open>approved_payments\<close>; a message
  with the key \<^verbatim>\<open>payment.credit.approve\<close> reaches \<^verbatim>\<open>approved_payments\<close> only, because the
  pattern \<^verbatim>\<open>payment.*\<close> of the two wildcard queues matches one word after \<^verbatim>\<open>payment\<close>,
  not two.
\<close>

theorem C2_topic_routing_of_declared_bindings:
  "fst (AdvancedConsumer_onModuleInit world0) = Inr ()
   \<and> bindings (trace (snd (AdvancedConsumer_onModuleInit world0)))
       = [(''approved_payments'', ''payment_events'', ''payment.credit.approve''),
          (''refund_requests'', ''payment_events'', ''payment.refund''),
          (''email_notifications'', ''payment_events'', ''payment.*''),
          (''audit_logs'', ''payment_events'', ''payment.*'')]
   \<and> route (bindings (trace (snd (AdvancedConsumer_onModuleInit world0))))
         ''payment_events'' ''payment.credit.approve''
       = [''approved_payments'']
   \<and> route (bindings (trace (snd (AdvancedConsumer_onModuleInit world0))))
         ''payment_events'' ''payment.refund''
       = [''refund_requests'', ''email_notifications'', ''audit_logs'']"
  by code_simp

end
